theory Spec2Isabelle
  imports Main "HOL-Library.Word" "HOL-Library.Sublist"
begin

unbundle bit_operations_syntax

section \<open>Bytes, strings and errors\<close>

text \<open>
  A Go \<open>byte\<close> is an 8-bit word. A Go \<open>string\<close> is an immutable sequence of bytes, so
  both \<open>[]byte\<close> and \<open>string\<close> are byte lists here and the conversions
  \<open>string(b)\<close> and \<open>[]byte(s)\<close> are the identity. \<open>gostr\<close> writes a string literal.
\<close>

type_synonym byte = "8 word"
type_synonym gostring = "byte list"

definition gostr :: "string \<Rightarrow> gostring" where
  "gostr s = map (\<lambda>c. of_nat (of_char c)) s"

text \<open>
  Go errors of this program are the two sentinel values of package \<open>io\<close> (compared by
  identity in \<open>serveConn\<close>) and message errors built by \<open>errors.New\<close> and \<open>fmt.Errorf\<close>.
\<close>

datatype err = EOF | ErrUnexpectedEOF | Err gostring

fun Error :: "err \<Rightarrow> gostring" where
  "Error EOF = gostr ''EOF''"
| "Error ErrUnexpectedEOF = gostr ''unexpected EOF''"
| "Error (Err m) = m"

text \<open>The verbs \<open>%d\<close> (on an \<open>int\<close>) and \<open>%02x\<close> (on a \<open>uint8\<close>) of package \<open>fmt\<close>.\<close>

function digits :: "nat \<Rightarrow> gostring" where
  "digits n = (if n < 10 then [of_nat (48 + n)] else digits (n div 10) @ [of_nat (48 + n mod 10)])"
  by pat_completeness auto
termination
  by (relation "measure (\<lambda>n. n)") auto

declare digits.simps [simp del]

definition itoa :: "int \<Rightarrow> gostring" where
  "itoa i = (if i < 0 then gostr ''-'' @ digits (nat (- i)) else digits (nat i))"

definition hexdigit :: "byte \<Rightarrow> byte" where
  "hexdigit d = (if d < 10 then 48 + d else 87 + d)"

definition hex02 :: "byte \<Rightarrow> gostring" where
  "hex02 b = [hexdigit (drop_bit 4 b), hexdigit (b AND 15)]"

section \<open>The frame codec (pkg/tapmanager/fdserver.go)\<close>

definition fdMagic :: "32 word" where "fdMagic = 0x42424242"
definition fdAdd :: byte where "fdAdd = 0"
definition fdRelease :: byte where "fdRelease = 1"
definition fdGet :: byte where "fdGet = 2"
definition fdResponse :: byte where "fdResponse = 0x80"
definition fdAddResponse :: byte where "fdAddResponse = fdAdd OR fdResponse"
definition fdReleaseResponse :: byte where "fdReleaseResponse = fdRelease OR fdResponse"
definition fdGetResponse :: byte where "fdGetResponse = fdGet OR fdResponse"
definition fdError :: byte where "fdError = 0xff"

text \<open>\<open>type fdHeader struct\<close>. The field \<open>Key [64]byte\<close> is a byte list; a header is
  well formed when that list has the 64 entries of the array.\<close>

record fdHeader =
  Magic :: "32 word"
  Command :: byte
  DataSize :: "32 word"
  OobSize :: "32 word"
  Key :: "byte list"

definition wf_fdHeader :: "fdHeader \<Rightarrow> bool" where
  "wf_fdHeader h \<longleftrightarrow> length (Key h) = 64"

text \<open>\<open>binary.BigEndian.PutUint32\<close> and \<open>binary.BigEndian.Uint32\<close>: the most
  significant byte first.\<close>

definition PutUint32 :: "32 word \<Rightarrow> byte list" where
  "PutUint32 v = [ucast (drop_bit 24 v), ucast (drop_bit 16 v), ucast (drop_bit 8 v), ucast v]"

definition Uint32 :: "byte list \<Rightarrow> 32 word" where
  "Uint32 b = ucast (b ! 3) OR push_bit 8 (ucast (b ! 2)) OR push_bit 16 (ucast (b ! 1))
     OR push_bit 24 (ucast (b ! 0))"

text \<open>What \<open>binary.Write(c, binary.BigEndian, hdr)\<close> puts on the wire for an \<open>fdHeader\<close>:
  the fields in declaration order, without padding; and what \<open>binary.Read\<close> makes of the
  \<open>binary.Size(hdr)\<close> bytes it has read.\<close>

definition fdHeader_size :: nat where
  "fdHeader_size = 4 + 1 + 4 + 4 + 64"

definition encode_fdHeader :: "fdHeader \<Rightarrow> byte list" where
  "encode_fdHeader h =
     PutUint32 (Magic h) @ [Command h] @ PutUint32 (DataSize h) @ PutUint32 (OobSize h) @ Key h"

definition decode_fdHeader :: "byte list \<Rightarrow> fdHeader" where
  "decode_fdHeader bs =
     \<lparr> Magic = Uint32 (take 4 bs),
       Command = bs ! 4,
       DataSize = Uint32 (take 4 (drop 5 bs)),
       OobSize = Uint32 (take 4 (drop 9 bs)),
       Key = take 64 (drop 13 bs) \<rparr>"

text \<open>\<open>func fdKey(key string) [64]byte\<close>: the loop over the 64 indices of the array.\<close>

definition fdKey :: "gostring \<Rightarrow> byte list" where
  "fdKey key = map (\<lambda>n. if n < length key then key ! n else 32) [0..<64]"

text \<open>
  \<open>strings.TrimSpace\<close> removes all leading and all trailing white space, as defined by
  Unicode (\<open>unicode.IsSpace\<close>). On the bytes of a string these are the UTF-8 encodings of
  U+0009 to U+000D, U+0020, U+0085, U+00A0, U+1680, U+2000 to U+200A, U+2028, U+2029,
  U+202F, U+205F and U+3000; a byte that starts no valid encoding decodes to the
  replacement rune, which is no space, and stops the trimming.
\<close>

definition space_runes :: "byte list list" where
  "space_runes =
     [[0x09], [0x0A], [0x0B], [0x0C], [0x0D], [0x20],
      [0xC2, 0x85], [0xC2, 0xA0],
      [0xE1, 0x9A, 0x80],
      [0xE2, 0x80, 0x80], [0xE2, 0x80, 0x81], [0xE2, 0x80, 0x82], [0xE2, 0x80, 0x83],
      [0xE2, 0x80, 0x84], [0xE2, 0x80, 0x85], [0xE2, 0x80, 0x86], [0xE2, 0x80, 0x87],
      [0xE2, 0x80, 0x88], [0xE2, 0x80, 0x89], [0xE2, 0x80, 0x8A],
      [0xE2, 0x80, 0xA8], [0xE2, 0x80, 0xA9], [0xE2, 0x80, 0xAF],
      [0xE2, 0x81, 0x9F],
      [0xE3, 0x80, 0x80]]"

function TrimLeftSpace :: "gostring \<Rightarrow> gostring" where
  "TrimLeftSpace s =
     (case find (\<lambda>w. prefix w s) space_runes of
        None \<Rightarrow> s
      | Some w \<Rightarrow> TrimLeftSpace (drop (length w) s))"
  by pat_completeness auto
termination
proof (relation "measure length")
  show "wf (measure (length :: gostring \<Rightarrow> nat))" by simp
next
  fix s w :: gostring
  assume "find (\<lambda>w. prefix w s) space_runes = Some w"
  then have "w \<in> set space_runes" and "prefix w s"
    by (auto simp: find_Some_iff)
  then have "w \<noteq> []" and "length w \<le> length s"
    by (auto simp: space_runes_def prefix_length_le)
  then show "(drop (length w) s, s) \<in> measure length"
    by (cases w) auto
qed

function TrimRightSpace :: "gostring \<Rightarrow> gostring" where
  "TrimRightSpace s =
     (case find (\<lambda>w. suffix w s) space_runes of
        None \<Rightarrow> s
      | Some w \<Rightarrow> TrimRightSpace (take (length s - length w) s))"
  by pat_completeness auto
termination
proof (relation "measure length")
  show "wf (measure (length :: gostring \<Rightarrow> nat))" by simp
next
  fix s w :: gostring
  assume "find (\<lambda>w. suffix w s) space_runes = Some w"
  then have "w \<in> set space_runes" and "suffix w s"
    by (auto simp: find_Some_iff)
  then have "w \<noteq> []" and "length w \<le> length s"
    by (auto simp: space_runes_def suffix_length_le)
  then show "(take (length s - length w) s, s) \<in> measure length"
    by (cases w) auto
qed

declare TrimLeftSpace.simps [simp del] TrimRightSpace.simps [simp del]

definition TrimSpace :: "gostring \<Rightarrow> gostring" where
  "TrimSpace s = TrimRightSpace (TrimLeftSpace s)"

text \<open>\<open>func (hdr *fdHeader) GetKey() string\<close>\<close>

definition GetKey :: "fdHeader \<Rightarrow> gostring" where
  "GetKey hdr = TrimSpace (Key hdr)"

definition hasLeadingSpace :: "gostring \<Rightarrow> bool" where
  "hasLeadingSpace s \<longleftrightarrow> (\<exists>w \<in> set space_runes. prefix w s)"

definition hasTrailingSpace :: "gostring \<Rightarrow> bool" where
  "hasTrailingSpace s \<longleftrightarrow> (\<exists>w \<in> set space_runes. suffix w s)"

text \<open>A string that consists of white space only: a sequence of encoded white-space
  runes.\<close>

inductive white :: "gostring \<Rightarrow> bool" where
  white_Nil: "white []"
| white_rune: "w \<in> set space_runes \<Longrightarrow> white s \<Longrightarrow> white (w @ s)"


section \<open>The FD server (pkg/tapmanager/fdserver.go)\<close>

text \<open>
  One side of a \<open>*net.UnixConn\<close>: the bytes the peer has sent and that are not read yet
  (the peer closes after them, so reading past them is an end of file), the writes made
  so far, and the outcome of every write call, numbered from 0 (\<open>None\<close>: the write
  succeeds). A header goes out as one write of plain bytes, a payload with its
  out-of-band data as one message. \<open>inmsgs\<close> holds what the coming calls of
  \<open>ReadMsgUnix\<close> return, each for the lengths of the two buffers it is given: the
  numbers \<open>n\<close> and \<open>oobn\<close> and the contents of the buffers afterwards, or an error.
\<close>

datatype wire = Plain "byte list" | Msg "byte list" "byte list"

record conn =
  unread :: "byte list"
  inmsgs :: "(nat \<Rightarrow> nat \<Rightarrow> err + int \<times> int \<times> byte list \<times> byte list) list"
  written :: "wire list"
  wfail :: "nat \<Rightarrow> err option"
  closed :: bool

text \<open>\<open>io.ReadFull(c, buf)\<close> for a buffer of \<open>n\<close> bytes: \<open>io.EOF\<close> when no byte
  could be read, \<open>io.ErrUnexpectedEOF\<close> when the stream ends after some but not all.\<close>

definition ReadFull :: "conn \<Rightarrow> nat \<Rightarrow> (err + byte list) \<times> conn" where
  "ReadFull c n =
     (if n \<le> length (unread c) then (Inr (take n (unread c)), c\<lparr>unread := drop n (unread c)\<rparr>)
      else if unread c = [] then (Inl EOF, c)
      else (Inl ErrUnexpectedEOF, c\<lparr>unread := []\<rparr>))"

text \<open>\<open>binary.Read(c, binary.BigEndian, &hdr)\<close> reads \<open>binary.Size(hdr)\<close> bytes with
  \<open>io.ReadFull\<close> and decodes them.\<close>

definition binary_Read :: "conn \<Rightarrow> (err + fdHeader) \<times> conn" where
  "binary_Read c =
     (case ReadFull c fdHeader_size of
        (Inl e, c') \<Rightarrow> (Inl e, c')
      | (Inr bs, c') \<Rightarrow> (Inr (decode_fdHeader bs), c'))"

definition conn_Write :: "conn \<Rightarrow> wire \<Rightarrow> err option \<times> conn" where
  "conn_Write c w =
     (case wfail c (length (written c)) of
        Some e \<Rightarrow> (Some e, c)
      | None \<Rightarrow> (None, c\<lparr>written := written c @ [w]\<rparr>))"

definition binary_Write :: "conn \<Rightarrow> fdHeader \<Rightarrow> err option \<times> conn" where
  "binary_Write c hdr = conn_Write c (Plain (encode_fdHeader hdr))"

text \<open>
  Modelled from the spec: \<open>c.WriteMsgUnix(data, oob, nil)\<close> is Go's library, not a
  function of this repository. The spec (4.B): "When \<open>data_size==0\<close> the loop still
  transmits a single-byte message to flush OOB". On a stream socket the library sends one
  dummy byte (of value 0) along with the out-of-band data when the payload is empty.
\<close>

definition WriteMsgUnix :: "conn \<Rightarrow> byte list \<Rightarrow> byte list \<Rightarrow> err option \<times> conn" where
  "WriteMsgUnix c data oob =
     conn_Write c (Msg (if data = [] \<and> oob \<noteq> [] then [0] else data) oob)"

text \<open>\<open>type FDSource interface\<close>: its three methods, over the state \<open>'s\<close> of whatever
  implements it.\<close>

record 's FDSource =
  GetFD :: "gostring \<Rightarrow> byte list \<Rightarrow> 's \<Rightarrow> (err + int \<times> byte list) \<times> 's"
  Release :: "gostring \<Rightarrow> 's \<Rightarrow> err option \<times> 's"
  GetInfo :: "gostring \<Rightarrow> 's \<Rightarrow> (err + byte list) \<times> 's"

text \<open>\<open>type FDServer struct\<close>: the registry \<open>fds\<close> and the state behind the \<open>source\<close>
  field. The mutex is not modelled: one connection is served at a time.\<close>

record 's FDServer =
  fds :: "gostring \<rightharpoonup> int"
  source :: 's

text \<open>Functions of Go's library that the server leaves to it: the \<open>%q\<close> verb on a string
  (\<open>strconv.Quote\<close>) and \<open>syscall.UnixRights\<close>, which encodes a descriptor as a socket
  control message.\<close>

record golib =
  Quote :: "gostring \<Rightarrow> gostring"
  UnixRights :: "int \<Rightarrow> byte list"

definition addFD :: "'s FDServer \<Rightarrow> gostring \<Rightarrow> int \<Rightarrow> bool \<times> 's FDServer" where
  "addFD s key fd =
     (if fds s key \<noteq> None then (False, s)
      else (True, s\<lparr>fds := (fds s)(key \<mapsto> fd)\<rparr>))"

definition removeFD :: "'s FDServer \<Rightarrow> gostring \<Rightarrow> 's FDServer" where
  "removeFD s key = s\<lparr>fds := (fds s)(key := None)\<rparr>"

definition getFD :: "golib \<Rightarrow> 's FDServer \<Rightarrow> gostring \<Rightarrow> err + int" where
  "getFD lib s key =
     (case fds s key of
        None \<Rightarrow> Inl (Err (gostr ''bad fd key: '' @ Quote lib key))
      | Some fd \<Rightarrow> Inr fd)"

text \<open>\<open>func (s *FDServer) serveAdd\<close>; \<open>read_payload\<close> is its first block, which reads
  the \<open>DataSize\<close> bytes of the payload. The error of the duplicate key formats the nil
  \<open>err\<close> with \<open>%q\<close>, which \<open>fmt\<close> prints as \<open>%!q(<nil>)\<close>.\<close>

definition read_payload :: "conn \<Rightarrow> fdHeader \<Rightarrow> (err + byte list) \<times> conn" where
  "read_payload c hdr =
     (if 0 < unat (DataSize hdr) then ReadFull c (unat (DataSize hdr)) else (Inr [], c))"

definition serveAdd ::
  "'s FDSource \<Rightarrow> 's FDServer \<Rightarrow> conn \<Rightarrow> fdHeader
    \<Rightarrow> (err + fdHeader \<times> byte list) \<times> 's FDServer \<times> conn" where
  "serveAdd src s c hdr =
     (case read_payload c hdr of
        (Inl e, c') \<Rightarrow> (Inl (Err (gostr ''error reading payload: '' @ Error e)), s, c')
      | (Inr data, c') \<Rightarrow>
          (let key = GetKey hdr in
           case GetFD src key data (source s) of
             (Inl e, src') \<Rightarrow>
               (Inl (Err (gostr ''error getting fd: '' @ Error e)), s\<lparr>source := src'\<rparr>, c')
           | (Inr (fd, respData), src') \<Rightarrow>
               (case addFD (s\<lparr>source := src'\<rparr>) key fd of
                  (False, s') \<Rightarrow>
                    (Inl (Err (gostr ''fd key already exists: %!q(<nil>)'')), s', c')
                | (True, s') \<Rightarrow>
                    (Inr (\<lparr> Magic = fdMagic, Command = fdAddResponse,
                            DataSize = of_nat (length respData), OobSize = 0,
                            Key = Key hdr \<rparr>, respData), s', c'))))"

text \<open>\<open>func (s *FDServer) serveRelease\<close>\<close>

definition serveRelease :: "'s FDServer \<Rightarrow> fdHeader \<Rightarrow> (err + fdHeader) \<times> 's FDServer" where
  "serveRelease s hdr =
     (Inr \<lparr> Magic = fdMagic, Command = fdReleaseResponse, DataSize = 0, OobSize = 0,
            Key = Key hdr \<rparr>,
      removeFD s (GetKey hdr))"

text \<open>\<open>func (s *FDServer) serveGet\<close>\<close>

definition serveGet ::
  "golib \<Rightarrow> 's FDSource \<Rightarrow> 's FDServer \<Rightarrow> fdHeader
    \<Rightarrow> (err + fdHeader \<times> byte list \<times> byte list) \<times> 's FDServer" where
  "serveGet lib src s hdr =
     (let key = GetKey hdr in
      case getFD lib s key of
        Inl e \<Rightarrow> (Inl e, s)
      | Inr fd \<Rightarrow>
          (case GetInfo src key (source s) of
             (Inl e, src') \<Rightarrow>
               (Inl (Err (gostr ''can't get key info: '' @ Error e)), s\<lparr>source := src'\<rparr>)
           | (Inr info, src') \<Rightarrow>
               (let rights = UnixRights lib fd in
                (Inr (\<lparr> Magic = fdMagic, Command = fdGetResponse,
                        DataSize = of_nat (length info), OobSize = of_nat (length rights),
                        Key = Key hdr \<rparr>, info, rights), s\<lparr>source := src'\<rparr>))))"

text \<open>The \<open>switch hdr.Command\<close> of \<open>serveConn\<close>: the response header, the payload and
  the out-of-band data, or the error.\<close>

definition dispatch ::
  "golib \<Rightarrow> 's FDSource \<Rightarrow> 's FDServer \<Rightarrow> conn \<Rightarrow> fdHeader
    \<Rightarrow> (err + fdHeader \<times> byte list \<times> byte list) \<times> 's FDServer \<times> conn" where
  "dispatch lib src s c hdr =
     (if Command hdr = fdAdd then
        (case serveAdd src s c hdr of
           (Inl e, s', c') \<Rightarrow> (Inl e, s', c')
         | (Inr (respHdr, data), s', c') \<Rightarrow> (Inr (respHdr, data, []), s', c'))
      else if Command hdr = fdRelease then
        (case serveRelease s hdr of
           (Inl e, s') \<Rightarrow> (Inl e, s', c)
         | (Inr respHdr, s') \<Rightarrow> (Inr (respHdr, [], []), s', c))
      else if Command hdr = fdGet then
        (case serveGet lib src s hdr of (r, s') \<Rightarrow> (r, s', c))
      else (Inl (Err (gostr ''bad command'')), s, c))"

text \<open>The response of the \<open>if err != nil\<close> block of \<open>serveConn\<close>: the \<open>Key\<close> of the
  header is left at its zero value.\<close>

definition error_response :: "err \<Rightarrow> fdHeader \<times> byte list \<times> byte list" where
  "error_response e =
     (\<lparr> Magic = fdMagic, Command = fdError, DataSize = of_nat (length (Error e)), OobSize = 0,
        Key = replicate 64 0 \<rparr>, Error e, [])"

text \<open>One turn of the \<open>for\<close> loop of \<open>serveConn\<close>: either the loop is left and
  \<open>serveConn\<close> returns (\<open>Return\<close>, with the error or nil), or the next header is read
  (\<open>Next\<close>).\<close>

datatype 'a loop = Return "err option" 'a | Next 'a

definition serveRequest ::
  "golib \<Rightarrow> 's FDSource \<Rightarrow> 's FDServer \<Rightarrow> conn \<Rightarrow> ('s FDServer \<times> conn) loop" where
  "serveRequest lib src s c =
     (case binary_Read c of
        (Inl e, c1) \<Rightarrow>
          (if e = EOF then Return None (s, c1)
           else Return (Some (Err (gostr ''error reading the header: '' @ Error e))) (s, c1))
      | (Inr hdr, c1) \<Rightarrow>
          (if Magic hdr \<noteq> fdMagic then Return (Some (Err (gostr ''bad magic''))) (s, c1)
           else
             (case dispatch lib src s c1 hdr of (r, s', c2) \<Rightarrow>
                (case (case r of Inl e \<Rightarrow> error_response e | Inr resp \<Rightarrow> resp) of
                   (respHdr, data, oobData) \<Rightarrow>
                     (case binary_Write c2 respHdr of
                        (Some e, c3) \<Rightarrow>
                          Return (Some (Err (gostr ''error writing response header: '' @ Error e)))
                            (s', c3)
                      | (None, c3) \<Rightarrow>
                          (if 0 < length data \<or> 0 < length oobData then
                             (case WriteMsgUnix c3 data oobData of
                                (Some e, c4) \<Rightarrow>
                                  Return (Some (Err (gostr ''error writing payload: '' @ Error e)))
                                    (s', c4)
                              | (None, c4) \<Rightarrow> Next (s', c4))
                           else Next (s', c3)))))))"


text \<open>\<open>func (s *FDServer) serveConn\<close>: the loop, and the deferred \<open>c.Close()\<close>. Every
  turn that goes on to the next has read a whole header, so the loop ends.\<close>

function serveConn ::
  "golib \<Rightarrow> 's FDSource \<Rightarrow> 's FDServer \<Rightarrow> conn \<Rightarrow> err option \<times> 's FDServer \<times> conn" where
  "serveConn lib src s c =
     (case serveRequest lib src s c of
        Return r (s', c') \<Rightarrow> (r, s', c'\<lparr>closed := True\<rparr>)
      | Next (s', c') \<Rightarrow> serveConn lib src s' c')"
  by pat_completeness auto
termination
proof (relation "measure (\<lambda>(lib, src, s, c). length (unread c))")
  show "wf (measure (\<lambda>(lib :: golib, src :: 's FDSource, s :: 's FDServer, c). length (unread c)))"
    by simp
next
  fix lib :: golib and src :: "'s FDSource" and s s' :: "'s FDServer" and c c' :: conn and x
  assume step: "serveRequest lib src s c = Next x" and x: "(s', c') = x"
  obtain hdr c1 where rd: "binary_Read c = (Inr hdr, c1)"
    using step by (auto simp: serveRequest_def split: prod.splits sum.splits if_splits)
  obtain r s2 c2 where d: "dispatch lib src s c1 hdr = (r, s2, c2)"
    by (cases "dispatch lib src s c1 hdr") auto
  have "length (unread c1) < length (unread c)"
    using rd by (auto simp: binary_Read_def ReadFull_def fdHeader_size_def split: if_splits)
  moreover have "length (unread c2) \<le> length (unread c1)"
    using d
    by (auto simp: dispatch_def serveRelease_def serveAdd_def read_payload_def ReadFull_def
        Let_def split: if_splits prod.splits sum.splits bool.splits)
  moreover have "unread c' = unread c2"
    using step x rd d
    by (auto simp: serveRequest_def binary_Write_def WriteMsgUnix_def conn_Write_def
        split: prod.splits sum.splits if_splits option.splits)
  ultimately show "((lib, src, s', c'), (lib, src, s, c))
      \<in> measure (\<lambda>(lib, src, s, c). length (unread c))"
    by simp
qed

declare serveConn.simps [simp del]

section \<open>The FD client (pkg/tapmanager/fdserver.go)\<close>

text \<open>\<open>type FDClient struct\<close>; the field \<open>c\<close> is nil until \<open>Connect\<close>.\<close>

record FDClient =
  socketPath :: gostring
  client_c :: "conn option"

text \<open>\<open>c.c.ReadMsgUnix(respData, oobData)\<close> on buffers of the given lengths; at the end of
  the stream it returns \<open>io.EOF\<close>.\<close>

definition ReadMsgUnix ::
  "conn \<Rightarrow> nat \<Rightarrow> nat \<Rightarrow> (err + int \<times> int \<times> byte list \<times> byte list) \<times> conn" where
  "ReadMsgUnix c dlen olen =
     (case inmsgs c of
        [] \<Rightarrow> (Inl EOF, c)
      | m # ms \<Rightarrow> (m dlen olen, c\<lparr>inmsgs := ms\<rparr>))"

text \<open>The block of \<open>request\<close> that reads the payload and the out-of-band data of a
  response and checks their sizes.\<close>

definition read_response_message ::
  "conn \<Rightarrow> nat \<Rightarrow> nat \<Rightarrow> (err + byte list \<times> byte list) \<times> conn" where
  "read_response_message c dlen olen =
     (if 0 < dlen \<or> 0 < olen then
        (case ReadMsgUnix c dlen olen of
           (Inl e, c') \<Rightarrow> (Inl (Err (gostr ''error reading the message: '' @ Error e)), c')
         | (Inr (n, oobn, respData, oobData), c') \<Rightarrow>
             (if n \<noteq> int dlen \<and> (dlen \<noteq> 0 \<or> n \<noteq> 1) then
                (Inl (Err (gostr ''bad data size: '' @ itoa n @ gostr '' instead of ''
                        @ itoa (int dlen))), c')
              else if oobn \<noteq> int olen then
                (Inl (Err (gostr ''bad oob data size: '' @ itoa oobn @ gostr '' instead of ''
                        @ itoa (int olen))), c')
              else (Inr (respData, oobData), c')))
      else (Inr (replicate dlen 0, replicate olen 0), c))"

text \<open>\<open>func (c *FDClient) request\<close>\<close>

definition request ::
  "FDClient \<Rightarrow> fdHeader \<Rightarrow> byte list
    \<Rightarrow> (err + fdHeader \<times> byte list \<times> byte list) \<times> FDClient" where
  "request cl hdr0 data =
     (let hdr = hdr0\<lparr>Magic := fdMagic\<rparr> in
      case client_c cl of
        None \<Rightarrow> (Inl (Err (gostr ''not connected'')), cl)
      | Some c \<Rightarrow>
          (case binary_Write c hdr of
             (Some e, c1) \<Rightarrow>
               (Inl (Err (gostr ''error writing request header: '' @ Error e)),
                cl\<lparr>client_c := Some c1\<rparr>)
           | (None, c1) \<Rightarrow>
               (case (if 0 < length data then conn_Write c1 (Plain data) else (None, c1)) of
                  (Some e, c2) \<Rightarrow>
                    (Inl (Err (gostr ''error writing request payload: '' @ Error e)),
                     cl\<lparr>client_c := Some c2\<rparr>)
                | (None, c2) \<Rightarrow>
                    (case binary_Read c2 of
                       (Inl e, c3) \<Rightarrow>
                         (Inl (Err (gostr ''error reading response header: '' @ Error e)),
                          cl\<lparr>client_c := Some c3\<rparr>)
                     | (Inr respHdr, c3) \<Rightarrow>
                         (if Magic respHdr \<noteq> fdMagic then
                            (Inl (Err (gostr ''bad magic'')), cl\<lparr>client_c := Some c3\<rparr>)
                          else
                            (case read_response_message c3 (unat (DataSize respHdr))
                                    (unat (OobSize respHdr)) of
                               (Inl e, c4) \<Rightarrow> (Inl e, cl\<lparr>client_c := Some c4\<rparr>)
                             | (Inr (respData, oobData), c4) \<Rightarrow>
                                 (if Command respHdr = fdError then
                                    (Inl (Err (gostr ''server returned error: '' @ respData)),
                                     cl\<lparr>client_c := Some c4\<rparr>)
                                  else if Command respHdr \<noteq> (Command hdr OR fdResponse) then
                                    (Inl (Err (gostr ''unexpected command ''
                                            @ hex02 (Command respHdr))),
                                     cl\<lparr>client_c := Some c4\<rparr>)
                                  else (Inr (respHdr, respData, oobData),
                                        cl\<lparr>client_c := Some c4\<rparr>))))))))"


section \<open>Network results and the pod descriptor\<close>

text \<open>
  The types of the CNI library that the two source files use through their fields:
  \<open>cnitypes.DNS\<close>, \<open>cnicurrent.Interface\<close>, \<open>cnicurrent.IPConfig\<close> and
  \<open>cnicurrent.Result\<close>. The lists \<open>Interfaces\<close> and \<open>IPs\<close> hold pointers, which may
  be nil. Addresses are kept as the strings of their JSON form.
\<close>

record DNS =
  Nameservers :: "gostring list"
  Domain :: gostring
  Search :: "gostring list"
  Options :: "gostring list"

record Interface =
  Name :: gostring
  Mac :: gostring
  Sandbox :: gostring

record IPConfig =
  Version :: gostring
  Interface :: int
  Address :: gostring
  Gateway :: gostring

record Route =
  Dst :: gostring
  GW :: gostring

record CNIResult =
  Interfaces :: "Interface option list"
  IPs :: "IPConfig option list"
  Routes :: "Route option list"
  DNS :: DNS

text \<open>\<open>type PodNetworkDesc struct\<close>; its field \<open>DNS *cnitypes.DNS\<close> is \<open>pnd_DNS\<close>.\<close>

record PodNetworkDesc =
  PodId :: gostring
  PodNs :: gostring
  PodName :: gostring
  pnd_DNS :: "DNS option"

section \<open>The tap FD source (TapFDSource)\<close>

text \<open>
  What the source keeps for a key, \<open>type podNetwork struct\<close>. Of
  \<open>nettools.ContainerSideNetwork\<close> the code reads \<open>Result\<close>, \<open>HardwareAddr\<close> and the
  descriptor of \<open>TapFile\<close>; of a \<open>dhcp.Server\<close> only the configuration it was made from is
  known. A network namespace handle is the path it was opened at, a channel is a number.
\<close>

type_synonym NetNS = gostring
type_synonym chan = nat

record ContainerSideNetwork =
  csn_Result :: CNIResult
  TapFile_Fd :: int
  HardwareAddr :: "byte list"

record dhcp_Config =
  cfg_CNIResult :: CNIResult
  PeerHardwareAddress :: "byte list"

record podNetwork =
  pnd :: PodNetworkDesc
  csn :: ContainerSideNetwork
  dhcpServer :: dhcp_Config
  doneCh :: chan

text \<open>
  The source works through calls into other packages (\<open>cni\<close>, \<open>ns\<close>, \<open>nettools\<close>,
  \<open>dhcp\<close>), which act on the kernel. Each such call is recorded, in order, in \<open>calls\<close>;
  this log is the model's view of the resources acquired and released. \<open>Call_Do\<close> is
  the entry into a namespace by \<open>vmNS.Do\<close>, which may fail before the function it is
  given runs; \<open>Call_go_Serve\<close> is the start of the goroutine that serves DHCP and sends
  on the channel; \<open>Call_receive\<close> is the receive \<open><-pn.doneCh\<close>, which is taken to
  return. The packages are taken not to write through the pointers they are given.
\<close>

datatype call =
    Call_CreateNetNS gostring
  | Call_AddSandboxToNetwork gostring gostring gostring
  | Call_GetNS gostring
  | Call_Do NetNS
  | Call_SetupContainerSideNetwork CNIResult
  | Call_SetupListener dhcp_Config gostring
  | Call_go_Serve NetNS dhcp_Config chan
  | Call_Sleep
  | Call_Close dhcp_Config
  | Call_receive chan
  | Call_Teardown ContainerSideNetwork
  | Call_RemoveSandboxFromNetwork gostring gostring gostring
  | Call_DestroyNetNS gostring


record TapFDSource =
  fdMap :: "gostring \<rightharpoonup> podNetwork"
  calls :: "call list"

text \<open>
  The packages outside this repository are parameters: whether a call fails, given the
  calls made before it (\<open>fails\<close>), the values the two calls with a result return when
  they succeed, given the calls up to and including them, the JSON codec for the two
  types it is used at, \<open>cni.PodNetNSPath\<close> and the \<open>%q\<close> verb.
\<close>

record world =
  fails :: "call list \<Rightarrow> call \<Rightarrow> err option"
  netConfig_of :: "call list \<Rightarrow> CNIResult"
  csn_of :: "call list \<Rightarrow> ContainerSideNetwork"
  Unmarshal_pnd :: "byte list \<Rightarrow> err + PodNetworkDesc"
  Marshal_result :: "CNIResult \<Rightarrow> err + byte list"
  PodNetNSPath :: "gostring \<Rightarrow> gostring"
  quote :: "gostring \<Rightarrow> gostring"

definition perform :: "world \<Rightarrow> call \<Rightarrow> TapFDSource \<Rightarrow> err option \<times> TapFDSource" where
  "perform w cl s = (fails w (calls s) cl, s\<lparr>calls := calls s @ [cl]\<rparr>)"

text \<open>The function literal that \<open>GetFD\<close> runs inside the namespace: it sets \<open>csn\<close> and
  \<open>dhcpServer\<close>, starts the goroutine that serves DHCP and sends the result of the serve
  loop on \<open>doneCh\<close>, and sleeps. When the rewiring fails, the two variables keep their
  zero value; when the listener fails, they are set.\<close>

definition GetFD_in_netns ::
  "world \<Rightarrow> NetNS \<Rightarrow> CNIResult \<Rightarrow> chan \<Rightarrow> TapFDSource
    \<Rightarrow> (err + ContainerSideNetwork \<times> dhcp_Config) \<times> TapFDSource" where
  "GetFD_in_netns w vmNS netConfig ch s =
     (case perform w (Call_SetupContainerSideNetwork netConfig) s of
        (Some e, s1) \<Rightarrow> (Inl e, s1)
      | (None, s1) \<Rightarrow>
          (let csn' = csn_of w (calls s1);
               dhcpConfg = \<lparr> cfg_CNIResult = csn_Result csn',
                             PeerHardwareAddress = HardwareAddr csn' \<rparr>
           in case perform w (Call_SetupListener dhcpConfg (gostr ''0.0.0.0'')) s1 of
                (Some e, s2) \<Rightarrow>
                  (Inl (Err (gostr ''Failed to set up dhcp listener: '' @ Error e)), s2)
              | (None, s2) \<Rightarrow>
                  (Inr (csn', dhcpConfg),
                   s2\<lparr>calls := calls s2 @ [Call_go_Serve vmNS dhcpConfg ch, Call_Sleep]\<rparr>)))"

text \<open>\<open>func (s *TapFDSource) GetFD\<close>. The two logging calls are left out.\<close>

definition TapFDSource_GetFD ::
  "world \<Rightarrow> gostring \<Rightarrow> byte list \<Rightarrow> TapFDSource \<Rightarrow> (err + int \<times> byte list) \<times> TapFDSource"
  where
  "TapFDSource_GetFD w key data s =
     (case Unmarshal_pnd w data of
        Inl e \<Rightarrow> (Inl (Err (gostr ''error unmarshalling pod network desc: '' @ Error e)), s)
      | Inr pnd' \<Rightarrow>
     (case perform w (Call_CreateNetNS (PodId pnd')) s of
        (Some e, s1) \<Rightarrow>
          (Inl (Err (gostr ''error creating new netns for pod '' @ PodName pnd' @ gostr '' (''
                  @ PodId pnd' @ gostr ''): '' @ Error e)), s1)
      | (None, s1) \<Rightarrow>
     (case perform w (Call_AddSandboxToNetwork (PodId pnd') (PodName pnd') (PodNs pnd')) s1 of
        (Some e, s2) \<Rightarrow>
          (Inl (Err (gostr ''error adding pod '' @ PodName pnd' @ gostr '' ('' @ PodId pnd'
                  @ gostr '') to CNI network: '' @ Error e)), s2)
      | (None, s2) \<Rightarrow>
     (let netConfig0 = netConfig_of w (calls s2);
          netConfig =
            (case pnd_DNS pnd' of
               None \<Rightarrow> netConfig0
             | Some d \<Rightarrow>
                 netConfig0\<lparr>DNS := (DNS netConfig0)\<lparr>Nameservers := Nameservers d,
                                                       Search := Search d,
                                                       Options := Options d\<rparr>\<rparr>);
          netNSPath = PodNetNSPath w (PodId pnd')
      in
      case perform w (Call_GetNS netNSPath) s2 of
        (Some e, s3) \<Rightarrow>
          (Inl (Err (gostr ''failed to open network namespace at '' @ quote w netNSPath
                  @ gostr '': '' @ Error e)), s3)
      | (None, s3) \<Rightarrow>
     (let vmNS = netNSPath; doneCh' = length (calls s3) in
      case perform w (Call_Do vmNS) s3 of
        (Some e, s4) \<Rightarrow> (Inl e, s4)
      | (None, s4) \<Rightarrow>
     (case GetFD_in_netns w vmNS netConfig doneCh' s4 of
        (Inl e, s5) \<Rightarrow> (Inl e, s5)
      | (Inr (csn', dhcpServer'), s5) \<Rightarrow>
     (case Marshal_result w netConfig of
        Inl e \<Rightarrow> (Inl (Err (gostr ''error marshalling net config: '' @ Error e)), s5)
      | Inr respData \<Rightarrow>
          (Inr (TapFile_Fd csn', respData),
           s5\<lparr>fdMap := (fdMap s5)(key \<mapsto>
                 \<lparr> pnd = pnd', csn = csn', dhcpServer = dhcpServer',
                   doneCh = doneCh' \<rparr>)\<rparr>))))))))"

text \<open>The function literal that \<open>Release\<close> runs inside the namespace.\<close>

definition Release_in_netns :: "world \<Rightarrow> podNetwork \<Rightarrow> TapFDSource \<Rightarrow> err option \<times> TapFDSource"
  where
  "Release_in_netns w pn s =
     (case perform w (Call_Close (dhcpServer pn)) s of
        (Some e, s1) \<Rightarrow> (Some (Err (gostr ''failed to stop dhcp server: '' @ Error e)), s1)
      | (None, s1) \<Rightarrow>
          (let s2 = s1\<lparr>calls := calls s1 @ [Call_receive (doneCh pn)]\<rparr>
           in case perform w (Call_Teardown (csn pn)) s2 of
                (Some e, s3) \<Rightarrow> (Some e, s3)
              | (None, s3) \<Rightarrow> (None, s3)))"

text \<open>\<open>func (s *TapFDSource) Release\<close>\<close>

definition TapFDSource_Release :: "world \<Rightarrow> gostring \<Rightarrow> TapFDSource \<Rightarrow> err option \<times> TapFDSource"
  where
  "TapFDSource_Release w key s =
     (case fdMap s key of
        None \<Rightarrow> (Some (Err (gostr ''bad fd key: '' @ quote w key)), s)
      | Some pn \<Rightarrow>
     (let netNSPath = PodNetNSPath w (PodId (pnd pn)) in
      case perform w (Call_GetNS netNSPath) s of
        (Some e, s1) \<Rightarrow>
          (Some (Err (gostr ''failed to open network namespace at '' @ quote w netNSPath
                   @ gostr '': '' @ Error e)), s1)
      | (None, s1) \<Rightarrow>
     (let vmNS = netNSPath in
      case perform w (Call_Do vmNS) s1 of
        (Some e, s2) \<Rightarrow> (Some e, s2)
      | (None, s2) \<Rightarrow>
     (case Release_in_netns w pn s2 of
        (Some e, s3) \<Rightarrow> (Some e, s3)
      | (None, s3) \<Rightarrow>
     (case perform w (Call_RemoveSandboxFromNetwork (PodId (pnd pn)) (PodName (pnd pn))
                        (PodNs (pnd pn))) s3 of
        (Some e, s4) \<Rightarrow>
          (Some (Err (gostr ''error removing pod sandbox '' @ quote w (PodId (pnd pn))
                   @ gostr '' from CNI network: '' @ Error e)), s4)
      | (None, s4) \<Rightarrow>
     (case perform w (Call_DestroyNetNS (PodId (pnd pn))) s4 of
        (Some e, s5) \<Rightarrow>
          (Some (Err (gostr ''Error when removing network namespace for pod sandbox ''
                   @ quote w (PodId (pnd pn)) @ gostr '': '' @ Error e)), s5)
      | (None, s5) \<Rightarrow> (None, s5\<lparr>fdMap := (fdMap s5)(key := None)\<rparr>)))))))"

text \<open>\<open>func (s *TapFDSource) GetInfo\<close>\<close>

definition TapFDSource_GetInfo :: "world \<Rightarrow> gostring \<Rightarrow> TapFDSource \<Rightarrow> err + byte list" where
  "TapFDSource_GetInfo w key s =
     (case fdMap s key of
        None \<Rightarrow> Inl (Err (gostr ''bad fd key: '' @ quote w key))
      | Some pn \<Rightarrow> Inr (HardwareAddr (csn pn)))"

text \<open>\<open>var _ FDSource = &TapFDSource{}\<close>: the source as the server sees it.\<close>

definition TapFDSource_FDSource :: "world \<Rightarrow> TapFDSource FDSource" where
  "TapFDSource_FDSource w =
     \<lparr> GetFD = TapFDSource_GetFD w,
       Release = TapFDSource_Release w,
       GetInfo = (\<lambda>key s. (TapFDSource_GetInfo w key s, s)) \<rparr>"


section \<open>The fake CNI client (tests/network/fake_cni_test.go)\<close>

text \<open>A Go panic, with the value of a \<open>panic(err)\<close> or a \<open>log.Panicf\<close>, or raised by the
  runtime for an index out of range or a nil pointer.\<close>

datatype panic =
    Panic_error err
  | Panic_message gostring
  | Panic_index_out_of_range
  | Panic_nil_pointer

datatype 'a outcome = Returned 'a | Panicked panic

record Link =
  link_Index :: int
  link_Name :: gostring

record FakeCNIVethPair =
  HostSide :: Link
  ContSide :: Link

text \<open>\<open>type FakeCNIClient struct\<close>\<close>

record FakeCNIClient =
  info :: "CNIResult option"
  infoAfterTeardown :: "CNIResult option"
  hostNS :: "NetNS option"
  contNS :: "NetNS option"
  podId :: gostring
  podName :: gostring
  podNS :: gostring
  added :: bool
  removed :: bool
  veths :: "FakeCNIVethPair list"

text \<open>The packages the fake client calls: entering a namespace with \<open>Do\<close> (which may
  fail before the function it is given runs), \<open>netlink.LinkByName\<close>,
  \<open>nettools.ExtractLinkInfo\<close>, \<open>cni.PodNetNSPath\<close> and the \<open>%q\<close> verb.\<close>

record netlib =
  Do_fails :: "NetNS \<Rightarrow> err option"
  LinkByName :: "gostring \<Rightarrow> err + Link"
  ExtractLinkInfo :: "Link \<Rightarrow> gostring \<Rightarrow> err + CNIResult"
  nl_PodNetNSPath :: "gostring \<Rightarrow> gostring"
  nl_quote :: "gostring \<Rightarrow> gostring"

text \<open>The function literal of \<open>captureNetworkConfigAfterTeardown\<close>: the error it returns
  or the client with \<open>infoAfterTeardown\<close> set, unless it panics. Indexing
  \<open>c.info.Interfaces[ifaceIndex]\<close> panics when the index is negative or not below the
  length.\<close>

definition capture_in_netns ::
  "netlib \<Rightarrow> FakeCNIClient \<Rightarrow> CNIResult \<Rightarrow> gostring \<Rightarrow> (err + FakeCNIClient) outcome" where
  "capture_in_netns nl c res podId' =
     (case IPs res of
        [] \<Rightarrow> Panicked Panic_index_out_of_range
      | None # _ \<Rightarrow> Panicked Panic_nil_pointer
      | Some ip # _ \<Rightarrow>
          (let ifaceIndex = Interface ip in
           if ifaceIndex > int (length (Interfaces res)) then
             Returned (Inl (Err (gostr ''bad interface index '' @ itoa ifaceIndex)))
           else if ifaceIndex < 0 \<or> int (length (Interfaces res)) \<le> ifaceIndex then
             Panicked Panic_index_out_of_range
           else
             (case Interfaces res ! nat ifaceIndex of
                None \<Rightarrow> Panicked Panic_nil_pointer
              | Some iface \<Rightarrow>
                  (case LinkByName nl (Name iface) of
                     Inl e \<Rightarrow>
                       Returned (Inl (Err (gostr ''can't find link '' @ nl_quote nl (Name iface)
                                        @ gostr '': '' @ Error e)))
                   | Inr link \<Rightarrow>
                       (case ExtractLinkInfo nl link (nl_PodNetNSPath nl podId') of
                          Inl e \<Rightarrow>
                            Returned (Inl (Err (gostr ''error extracting link info: ''
                                             @ Error e)))
                        | Inr r \<Rightarrow> Returned (Inr (c\<lparr>infoAfterTeardown := Some r\<rparr>)))))))"

text \<open>\<open>func (c *FakeCNIClient) captureNetworkConfigAfterTeardown\<close>\<close>

definition captureNetworkConfigAfterTeardown ::
  "netlib \<Rightarrow> FakeCNIClient \<Rightarrow> gostring \<Rightarrow> FakeCNIClient outcome" where
  "captureNetworkConfigAfterTeardown nl c podId' =
     (case info c of
        None \<Rightarrow> Panicked Panic_nil_pointer
      | Some res \<Rightarrow>
          (if length (IPs res) \<noteq> 1 then Returned c
           else
             (case contNS c of
                None \<Rightarrow> Panicked Panic_nil_pointer
              | Some ns \<Rightarrow>
                  (case Do_fails nl ns of
                     Some e \<Rightarrow> Panicked (Panic_error e)
                   | None \<Rightarrow>
                       (case capture_in_netns nl c res podId' of
                          Panicked p \<Rightarrow> Panicked p
                        | Returned (Inl e) \<Rightarrow> Panicked (Panic_error e)
                        | Returned (Inr c') \<Rightarrow> Returned c')))))"

text \<open>\<open>func (c *FakeCNIClient) verifyPod\<close>; the second message prints \<open>podId\<close>, as the
  code does.\<close>

definition verifyPod ::
  "netlib \<Rightarrow> FakeCNIClient \<Rightarrow> gostring \<Rightarrow> gostring \<Rightarrow> gostring \<Rightarrow> unit outcome" where
  "verifyPod nl c podId' podName' podNS' =
     (if podId' \<noteq> podId c then
        Panicked (Panic_message (gostr ''podId mismatch: '' @ nl_quote nl podId'
                    @ gostr '' instead of '' @ nl_quote nl (podId c)))
      else if podName' \<noteq> podName c then
        Panicked (Panic_message (gostr ''podName mismatch: '' @ nl_quote nl podId'
                    @ gostr '' instead of '' @ nl_quote nl (podName c)))
      else if podNS' \<noteq> podNS c then
        Panicked (Panic_message (gostr ''podNS mismatch: '' @ nl_quote nl podNS'
                    @ gostr '' instead of '' @ nl_quote nl (podNS c)))
      else Returned ())"

text \<open>\<open>func (c *FakeCNIClient) RemoveSandboxFromNetwork\<close>; it returns a nil error
  whenever it returns.\<close>

definition RemoveSandboxFromNetwork ::
  "netlib \<Rightarrow> FakeCNIClient \<Rightarrow> gostring \<Rightarrow> gostring \<Rightarrow> gostring \<Rightarrow> FakeCNIClient outcome" where
  "RemoveSandboxFromNetwork nl c podId' podName' podNS' =
     (case verifyPod nl c podId' podName' podNS' of
        Panicked p \<Rightarrow> Panicked p
      | Returned _ \<Rightarrow>
          (if \<not> added c then
             Panicked (Panic_message
               (gostr ''RemoveSandboxFromNetwork() was called without prior AddSandboxToNetwork()''))
           else if removed c then
             Panicked (Panic_message (gostr ''RemoveSandboxFromNetwork() was already called''))
           else
             (case captureNetworkConfigAfterTeardown nl c podId' of
                Panicked p \<Rightarrow> Panicked p
              | Returned c' \<Rightarrow> Returned (c'\<lparr>removed := True\<rparr>))))"


section \<open>Example inputs\<close>

text \<open>A source that counts the calls of \<open>GetFD\<close>, a server that holds the key \<open>p1\<close>,
  a connection on which every write succeeds, and requests with an empty payload.\<close>

definition counting_source :: "nat FDSource" where
  "counting_source =
     \<lparr> GetFD = (\<lambda>key data n. (Inr (7, data), Suc n)),
       Release = (\<lambda>key n. (None, n)),
       GetInfo = (\<lambda>key n. (Inr [], n)) \<rparr>"

definition example_lib :: golib where
  "example_lib = \<lparr> Quote = (\<lambda>s. s), UnixRights = (\<lambda>fd. [1, 2, 3, 4]) \<rparr>"

definition example_conn :: "byte list \<Rightarrow> conn" where
  "example_conn bs =
     \<lparr> unread = bs, inmsgs = [], written = [], wfail = (\<lambda>n. None), closed = False \<rparr>"

definition example_request :: "byte \<Rightarrow> gostring \<Rightarrow> fdHeader" where
  "example_request cmd key =
     \<lparr> Magic = fdMagic, Command = cmd, DataSize = 0, OobSize = 0, Key = fdKey key \<rparr>"

definition example_server :: "nat FDServer" where
  "example_server = \<lparr> fds = [gostr ''p1'' \<mapsto> 3], source = 0 \<rparr>"

definition bad_magic_request :: fdHeader where
  "bad_magic_request = (example_request fdAdd (gostr ''p1''))\<lparr>Magic := 0\<rparr>"

definition example_reply :: "nat \<Rightarrow> nat \<Rightarrow> err + int \<times> int \<times> byte list \<times> byte list" where
  "example_reply dlen olen = Inr (1, 4, [], [1, 2, 3, 4])"

text \<open>A pod descriptor with a DNS override and the JSON payload that carries it, the
  result of a provisioner, a world in which the calls fail as the given function says and
  the JSON codec knows this one descriptor and this one result, and a fake CNI client
  whose only IP points at the interface of the given index.\<close>

definition example_dns :: DNS where
  "example_dns = \<lparr> Nameservers = [gostr ''1.1.1.1''], Domain = [], Search = [], Options = [] \<rparr>"

definition example_pnd :: PodNetworkDesc where
  "example_pnd =
     \<lparr> PodId = gostr ''p1'', PodNs = gostr ''default'', PodName = gostr ''vm'',
       pnd_DNS = Some example_dns \<rparr>"

definition example_result :: CNIResult where
  "example_result =
     \<lparr> Interfaces = [Some \<lparr> Name = gostr ''eth0'', Mac = gostr ''aa:bb:cc:00:11:22'',
                            Sandbox = gostr ''placeholder'' \<rparr>],
       IPs = [Some \<lparr> Version = gostr ''4'', Interface = 0, Address = gostr ''10.1.90.5/24'',
                     Gateway = gostr ''10.1.90.1'' \<rparr>],
       Routes = [],
       DNS = \<lparr> Nameservers = [gostr ''8.8.8.8''], Domain = [], Search = [], Options = [] \<rparr> \<rparr>"

definition example_csn :: ContainerSideNetwork where
  "example_csn = \<lparr> csn_Result = example_result, TapFile_Fd = 5, HardwareAddr = [1, 2, 3, 4, 5, 6] \<rparr>"

definition example_payload :: "byte list" where
  \<open>example_payload =
     gostr ''{"podId":"p1","podNs":"default","podName":"vm","DNS":{"nameservers":["1.1.1.1"]}}''\<close>

definition example_world :: "(call \<Rightarrow> err option) \<Rightarrow> world" where
  "example_world f =
     \<lparr> fails = (\<lambda>before. f),
       netConfig_of = (\<lambda>upto. example_result),
       csn_of = (\<lambda>upto. example_csn),
       Unmarshal_pnd = (\<lambda>data. if data = example_payload then Inr example_pnd
                              else Inl (Err (gostr ''unexpected end of JSON input''))),
       Marshal_result = (\<lambda>r. if r = example_result\<lparr>DNS := example_dns\<rparr> then Inr (gostr ''{}'')
                              else Inl (Err (gostr ''unsupported''))),
       PodNetNSPath = (\<lambda>podId. gostr ''/var/run/netns/'' @ podId),
       quote = (\<lambda>s. gostr [CHR 0x22] @ s @ gostr [CHR 0x22]) \<rparr>"


definition example_source :: TapFDSource where
  "example_source = \<lparr> fdMap = Map.empty, calls = [] \<rparr>"

definition example_decode :: "byte list \<Rightarrow> CNIResult option" where
  "example_decode bs = (if bs = gostr ''{}'' then Some (example_result\<lparr>DNS := example_dns\<rparr>) else None)"


definition no_failure :: "call \<Rightarrow> err option" where
  "no_failure cl = None"

definition example_netlib :: netlib where
  "example_netlib =
     \<lparr> Do_fails = (\<lambda>ns. None),
       LinkByName = (\<lambda>name. Inr \<lparr> link_Index = 2, link_Name = name \<rparr>),
       ExtractLinkInfo = (\<lambda>link path. Inr example_result),
       nl_PodNetNSPath = (\<lambda>podId. gostr ''/var/run/netns/'' @ podId),
       nl_quote = (\<lambda>s. gostr [CHR 0x22] @ s @ gostr [CHR 0x22]) \<rparr>"

definition example_client :: "int \<Rightarrow> FakeCNIClient" where
  "example_client ifaceIndex =
     \<lparr> info = Some (example_result\<lparr>IPs :=
               [Some \<lparr> Version = gostr ''4'', Interface = ifaceIndex,
                        Address = gostr ''10.1.90.5/24'', Gateway = gostr ''10.1.90.1'' \<rparr>]\<rparr>),
       infoAfterTeardown = None,
       hostNS = Some (gostr ''/proc/self/ns/net''),
       contNS = Some (gostr ''/var/run/netns/p1''),
       podId = gostr ''p1'', podName = gostr ''vm'', podNS = gostr ''default'',
       added = True, removed = False, veths = [] \<rparr>"

section \<open>Verification: the frame codec\<close>

lemma Uint32_PutUint32: "Uint32 (PutUint32 v) = v"
  unfolding Uint32_def PutUint32_def
  apply simp
  apply (rule bit_word_eqI)
  subgoal for n
    apply (cases "n < 8"; cases "n < 16"; cases "n < 24")
    apply (auto simp add: bit_simps)
    done
  done

lemma length_PutUint32: "length (PutUint32 v) = 4"
  by (simp add: PutUint32_def)

lemma length_encode_fdHeader: "wf_fdHeader h \<Longrightarrow> length (encode_fdHeader h) = 77"
  by (simp add: encode_fdHeader_def wf_fdHeader_def length_PutUint32)

lemma decode_encode_fdHeader:
  "wf_fdHeader h \<Longrightarrow> decode_fdHeader (encode_fdHeader h @ rest) = h"
  by (simp add: decode_fdHeader_def encode_fdHeader_def wf_fdHeader_def length_PutUint32
      Uint32_PutUint32 nth_append)

lemma binary_Read_encode:
  assumes "wf_fdHeader h" and "unread c = encode_fdHeader h @ rest"
  shows "binary_Read c = (Inr h, c\<lparr>unread := rest\<rparr>)"
proof -
  have "take 77 (unread c) = encode_fdHeader h" and "drop 77 (unread c) = rest"
    and "77 \<le> length (unread c)"
    using assms by (simp_all add: length_encode_fdHeader)
  moreover have "decode_fdHeader (encode_fdHeader h) = h"
    using decode_encode_fdHeader [OF assms(1), of "[]"] by simp
  ultimately show ?thesis
    by (simp add: binary_Read_def ReadFull_def fdHeader_size_def)
qed

lemma unat_byte: "unat (ucast (drop_bit k v) :: byte) = unat (v :: 32 word) div 2 ^ k mod 256"
  by (simp add: unsigned_ucast_eq unat_drop_bit_eq take_bit_eq_mod) (simp add: drop_bit_eq_div)

lemma be_digits:
  fixes n :: nat
  assumes "n < 4294967296"
  shows "n = 16777216 * (n div 16777216 mod 256) + 65536 * (n div 65536 mod 256)
           + 256 * (n div 256 mod 256) + n mod 256"
proof -
  have a: "n div 16777216 mod 256 = n div 16777216"
    using assms by (simp add: less_mult_imp_div_less)
  have b: "n mod 16777216 = 65536 * (n div 65536 mod 256) + n mod 65536"
    using mod_mult2_eq [of n 65536 256] by simp
  have c: "n mod 65536 = 256 * (n div 256 mod 256) + n mod 256"
    using mod_mult2_eq [of n 256 256] by simp
  have "n = 16777216 * (n div 16777216) + n mod 16777216"
    by simp
  with a b c show ?thesis by simp
qed

lemma PutUint32_value:
  "unat v = 2 ^ 24 * unat (PutUint32 v ! 0) + 2 ^ 16 * unat (PutUint32 v ! 1)
     + 2 ^ 8 * unat (PutUint32 v ! 2) + unat (PutUint32 v ! 3)"
proof -
  have "unat v < 4294967296" using unsigned_less [of v] by simp
  moreover have "unat (ucast v :: byte) = unat v mod 256"
    by (simp add: unsigned_ucast_eq take_bit_eq_mod)
  ultimately show ?thesis
    using be_digits [of "unat v"]
    unfolding PutUint32_def
    by (simp add: unat_byte)
qed

lemma encode_fdHeader_nth:
  "encode_fdHeader h ! 0 = PutUint32 (Magic h) ! 0" "encode_fdHeader h ! 1 = PutUint32 (Magic h) ! 1"
  "encode_fdHeader h ! 2 = PutUint32 (Magic h) ! 2" "encode_fdHeader h ! 3 = PutUint32 (Magic h) ! 3"
  "encode_fdHeader h ! 4 = Command h"
  "encode_fdHeader h ! 5 = PutUint32 (DataSize h) ! 0" "encode_fdHeader h ! 6 = PutUint32 (DataSize h) ! 1"
  "encode_fdHeader h ! 7 = PutUint32 (DataSize h) ! 2" "encode_fdHeader h ! 8 = PutUint32 (DataSize h) ! 3"
  "encode_fdHeader h ! 9 = PutUint32 (OobSize h) ! 0" "encode_fdHeader h ! 10 = PutUint32 (OobSize h) ! 1"
  "encode_fdHeader h ! 11 = PutUint32 (OobSize h) ! 2" "encode_fdHeader h ! 12 = PutUint32 (OobSize h) ! 3"
  "drop 13 (encode_fdHeader h) = Key h"
  by (simp_all add: encode_fdHeader_def PutUint32_def)

text \<open>
  C5. The header of the wire protocol takes exactly 77 bytes (4+1+4+4+64): the magic,
  the data size and the out-of-band size as four bytes each with the most significant
  byte first, the command as one byte, the key as its 64 bytes. Decoding the encoding of
  a header gives the header back, also through \<open>binary.Read\<close> on a connection that holds
  the encoding.
\<close>

theorem fdHeader_wire_roundtrip:
  assumes "wf_fdHeader h"
  shows "fdHeader_size = 77 \<and> length (encode_fdHeader h) = 77
    \<and> unat (Magic h) = 2 ^ 24 * unat (encode_fdHeader h ! 0) + 2 ^ 16 * unat (encode_fdHeader h ! 1)
         + 2 ^ 8 * unat (encode_fdHeader h ! 2) + unat (encode_fdHeader h ! 3)
    \<and> encode_fdHeader h ! 4 = Command h
    \<and> unat (DataSize h) = 2 ^ 24 * unat (encode_fdHeader h ! 5) + 2 ^ 16 * unat (encode_fdHeader h ! 6)
         + 2 ^ 8 * unat (encode_fdHeader h ! 7) + unat (encode_fdHeader h ! 8)
    \<and> unat (OobSize h) = 2 ^ 24 * unat (encode_fdHeader h ! 9) + 2 ^ 16 * unat (encode_fdHeader h ! 10)
         + 2 ^ 8 * unat (encode_fdHeader h ! 11) + unat (encode_fdHeader h ! 12)
    \<and> drop 13 (encode_fdHeader h) = Key h
    \<and> decode_fdHeader (encode_fdHeader h) = h
    \<and> binary_Read (c\<lparr>unread := encode_fdHeader h @ rest\<rparr>) = (Inr h, c\<lparr>unread := rest\<rparr>)"
proof -
  have "decode_fdHeader (encode_fdHeader h) = h"
    using decode_encode_fdHeader [OF assms, of "[]"] by simp
  moreover have "binary_Read (c\<lparr>unread := encode_fdHeader h @ rest\<rparr>) = (Inr h, c\<lparr>unread := rest\<rparr>)"
    using binary_Read_encode [OF assms, of "c\<lparr>unread := encode_fdHeader h @ rest\<rparr>" rest] by simp
  ultimately show ?thesis
    using PutUint32_value [of "Magic h"] PutUint32_value [of "DataSize h"]
      PutUint32_value [of "OobSize h"]
    by (simp only: encode_fdHeader_nth length_encode_fdHeader [OF assms] fdHeader_size_def) simp
qed

theorem fdHeader_wire_roundtrip_witness:
  "wf_fdHeader \<lparr>Magic = fdMagic, Command = fdGetResponse, DataSize = 6, OobSize = 20,
       Key = fdKey (gostr ''p1'')\<rparr>
   \<and> length (encode_fdHeader \<lparr>Magic = fdMagic, Command = fdGetResponse, DataSize = 6,
       OobSize = 20, Key = fdKey (gostr ''p1'')\<rparr>) = 77
   \<and> decode_fdHeader (encode_fdHeader \<lparr>Magic = fdMagic, Command = fdGetResponse, DataSize = 6,
       OobSize = 20, Key = fdKey (gostr ''p1'')\<rparr>)
     = \<lparr>Magic = fdMagic, Command = fdGetResponse, DataSize = 6, OobSize = 20,
       Key = fdKey (gostr ''p1'')\<rparr>"
proof -
  have wf: "wf_fdHeader \<lparr>Magic = fdMagic, Command = fdGetResponse, DataSize = 6, OobSize = 20,
       Key = fdKey (gostr ''p1'')\<rparr>"
    by (simp add: wf_fdHeader_def fdKey_def)
  show ?thesis
    using wf fdHeader_wire_roundtrip [OF wf] by simp
qed

section \<open>Verification: keys on the wire\<close>

lemma fdKey_eq: "fdKey key = take 64 key @ replicate (64 - length key) 32"
  by (rule nth_equalityI) (auto simp: fdKey_def nth_append min_def simp del: upt_Suc)

lemma TrimLeftSpace_None: "\<not> hasLeadingSpace s \<Longrightarrow> TrimLeftSpace s = s"
proof -
  assume "\<not> hasLeadingSpace s"
  then have "find (\<lambda>w. prefix w s) space_runes = None"
    by (simp add: hasLeadingSpace_def find_None_iff)
  then show ?thesis
    by (subst TrimLeftSpace.simps) simp
qed

lemma TrimRightSpace_None: "\<not> hasTrailingSpace s \<Longrightarrow> TrimRightSpace s = s"
proof -
  assume "\<not> hasTrailingSpace s"
  then have "find (\<lambda>w. suffix w s) space_runes = None"
    by (simp add: hasTrailingSpace_def find_None_iff)
  then show ?thesis
    by (subst TrimRightSpace.simps) simp
qed

lemma not_suffix_last: "w \<noteq> [] \<Longrightarrow> last w \<noteq> c \<Longrightarrow> \<not> suffix w (s @ [c])"
  by (auto simp: suffix_def) (metis last_appendR last_snoc)

lemma find_suffix_space: "find (\<lambda>w. suffix w (s @ [32])) space_runes = Some [32]"
  by (simp add: space_runes_def not_suffix_last suffix_def)

lemma TrimRightSpace_snoc_space: "TrimRightSpace (s @ [32]) = TrimRightSpace s"
  by (subst TrimRightSpace.simps) (simp add: find_suffix_space del: suffix_snoc)

lemma TrimRightSpace_padding: "TrimRightSpace (s @ replicate n 32) = TrimRightSpace s"
proof (induction n)
  case 0
  then show ?case by simp
next
  case (Suc n)
  have "s @ replicate (Suc n) 32 = (s @ replicate n 32) @ [32]"
    by (simp add: replicate_append_same)
  then show ?case
    using Suc by (simp only: TrimRightSpace_snoc_space)
qed

lemma find_prefix_space: "find (\<lambda>w. prefix w (32 # s)) space_runes = Some [32]"
  by (simp add: space_runes_def)

lemma TrimLeftSpace_Cons_space: "TrimLeftSpace (32 # s) = TrimLeftSpace s"
  by (subst TrimLeftSpace.simps) (simp add: find_prefix_space)

lemma TrimLeftSpace_spaces: "TrimLeftSpace (replicate n 32) = []"
proof (induction n)
  case 0
  show ?case by (subst TrimLeftSpace.simps) (simp add: space_runes_def)
next
  case (Suc n)
  then show ?case by (simp add: TrimLeftSpace_Cons_space)
qed

lemma space_runes_last: "w \<in> set space_runes \<Longrightarrow> 2 \<le> length w \<Longrightarrow> last w \<noteq> 32"
  by (auto simp: space_runes_def)

lemma no_leading_space_padding:
  assumes "\<not> hasLeadingSpace key" and "key \<noteq> []"
  shows "\<not> hasLeadingSpace (key @ replicate n 32)"
proof
  assume "hasLeadingSpace (key @ replicate n 32)"
  then obtain w where w: "w \<in> set space_runes" and p: "prefix w (key @ replicate n 32)"
    by (auto simp: hasLeadingSpace_def)
  from assms(1) w have np: "\<not> prefix w key"
    by (auto simp: hasLeadingSpace_def)
  with p obtain r where r: "w = key @ r" and pr: "prefix r (replicate n 32)"
    by (auto simp: prefix_append)
  from np r have "r \<noteq> []" by auto
  moreover from pr have "set r \<subseteq> {32}"
    by (metis set_mono_prefix set_replicate_conv_if empty_subsetI order_trans subset_refl)
  ultimately have "last r = 32"
    using last_in_set by blast
  with r \<open>r \<noteq> []\<close> have "last w = 32" by simp
  moreover from r \<open>r \<noteq> []\<close> assms(2) have "2 \<le> length w"
    by (cases key; cases r) auto
  ultimately show False
    using space_runes_last [OF w] by simp
qed

lemma TrimSpace_fdKey:
  assumes len: "length key \<le> 64" and l: "\<not> hasLeadingSpace key" and t: "\<not> hasTrailingSpace key"
  shows "TrimSpace (fdKey key) = key"
proof (cases "key = []")
  case True
  then show ?thesis
    by (simp add: fdKey_eq TrimSpace_def TrimLeftSpace_spaces)
      (subst TrimRightSpace.simps, simp add: space_runes_def)
next
  case False
  have "fdKey key = key @ replicate (64 - length key) 32"
    using len by (simp add: fdKey_eq)
  moreover have "TrimLeftSpace (key @ replicate (64 - length key) 32) = key @ replicate (64 - length key) 32"
    using no_leading_space_padding [OF l False] by (rule TrimLeftSpace_None)
  ultimately show ?thesis
    by (simp add: TrimSpace_def TrimRightSpace_padding TrimRightSpace_None [OF t])
qed





lemma no_space_p1: "\<not> hasLeadingSpace (gostr ''p1'') \<and> \<not> hasTrailingSpace (gostr ''p1'')"
  by (simp add: hasLeadingSpace_def hasTrailingSpace_def space_runes_def gostr_def
      suffix_to_prefix)




section \<open>Verification: the FD server\<close>

lemma length_fdKey: "length (fdKey key) = 64"
  by (simp add: fdKey_def)

lemma wf_example_request: "wf_fdHeader (example_request cmd key)"
  by (simp add: example_request_def wf_fdHeader_def length_fdKey)

lemma GetKey_example_p1: "GetKey (example_request cmd (gostr ''p1'')) = gostr ''p1''"
  using TrimSpace_fdKey [of "gostr ''p1''"] no_space_p1
  by (simp add: GetKey_def example_request_def gostr_def)

lemma serveAdd_present:
  assumes "fds s (GetKey hdr) \<noteq> None"
  shows "\<exists>e s' c'. serveAdd src s c hdr = (Inl e, s', c') \<and> fds s' = fds s
     \<and> (\<forall>data c1. read_payload c hdr = (Inr data, c1) \<longrightarrow>
          c' = c1 \<and> source s' = snd (GetFD src (GetKey hdr) data (source s))
          \<and> (case fst (GetFD src (GetKey hdr) data (source s)) of
               Inl e' \<Rightarrow> e = Err (gostr ''error getting fd: '' @ Error e')
             | Inr r \<Rightarrow> e = Err (gostr ''fd key already exists: %!q(<nil>)'')))"
  using assms
  by (auto simp: serveAdd_def addFD_def Let_def split: prod.splits sum.splits)

lemma serveRequest_release:
  assumes "binary_Read c = (Inr hdr, c1)" and "Magic hdr = fdMagic" and "Command hdr = fdRelease"
    and "wfail c1 (length (written c1)) = None"
  shows "serveRequest lib src s c =
     Next (removeFD s (GetKey hdr),
           c1\<lparr>written := written c1 @
                 [Plain (encode_fdHeader \<lparr>Magic = fdMagic, Command = fdReleaseResponse,
                           DataSize = 0, OobSize = 0, Key = Key hdr\<rparr>)]\<rparr>)"
  using assms
  by (simp add: serveRequest_def dispatch_def serveRelease_def binary_Write_def conn_Write_def
      fdAdd_def fdRelease_def)

lemma removeFD_absent: "fds s key = None \<Longrightarrow> removeFD s key = s"
  by (simp add: removeFD_def fun_upd_idem)

lemma serveRequest_bad_magic:
  assumes "binary_Read c = (Inr hdr, c1)" and "Magic hdr \<noteq> fdMagic"
  shows "serveRequest lib src s c = Return (Some (Err (gostr ''bad magic''))) (s, c1)"
  using assms by (simp add: serveRequest_def)

lemma serveRequest_bad_command:
  assumes "binary_Read c = (Inr hdr, c1)" and "Magic hdr = fdMagic"
    and "Command hdr \<noteq> fdAdd" and "Command hdr \<noteq> fdRelease" and "Command hdr \<noteq> fdGet"
    and "wfail c1 (length (written c1)) = None" and "wfail c1 (Suc (length (written c1))) = None"
  shows "serveRequest lib src s c =
     Next (s, c1\<lparr>written := written c1 @
                 [Plain (encode_fdHeader \<lparr>Magic = fdMagic, Command = fdError,
                           DataSize = 11, OobSize = 0, Key = replicate 64 0\<rparr>),
                  Msg (gostr ''bad command'') []]\<rparr>)"
  using assms
  by (simp add: serveRequest_def dispatch_def binary_Write_def conn_Write_def WriteMsgUnix_def
      error_response_def gostr_def)

lemma serveRequest_get_empty_info:
  assumes "binary_Read c = (Inr hdr, c1)" and "Magic hdr = fdMagic" and "Command hdr = fdGet"
    and "fds s (GetKey hdr) = Some fd"
    and "GetInfo src (GetKey hdr) (source s) = (Inr [], src')"
    and "UnixRights lib fd \<noteq> []"
    and "wfail c1 (length (written c1)) = None" and "wfail c1 (Suc (length (written c1))) = None"
  shows "serveRequest lib src s c =
     Next (s\<lparr>source := src'\<rparr>,
           c1\<lparr>written := written c1 @
                 [Plain (encode_fdHeader \<lparr>Magic = fdMagic, Command = fdGetResponse,
                           DataSize = 0, OobSize = of_nat (length (UnixRights lib fd)),
                           Key = Key hdr\<rparr>),
                  Msg [0] (UnixRights lib fd)]\<rparr>)"
  using assms
  by (simp add: serveRequest_def dispatch_def serveGet_def getFD_def binary_Write_def
      conn_Write_def WriteMsgUnix_def fdAdd_def fdRelease_def fdGet_def Let_def)

lemma bad_size_messages_differ:
  "gostr ''bad oob data size: '' @ x \<noteq> gostr ''bad data size: '' @ y"
  by (simp add: gostr_def)

lemma read_response_message_sizes:
  assumes "inmsgs c = m # ms" and "m dlen olen = Inr (n, oobn, respData, oobData)"
    and "0 < dlen \<or> 0 < olen"
  shows "(fst (read_response_message c dlen olen)
            = Inl (Err (gostr ''bad data size: '' @ itoa n @ gostr '' instead of ''
                     @ itoa (int dlen)))
          \<longleftrightarrow> n \<noteq> int dlen \<and> \<not> (dlen = 0 \<and> n = 1))
    \<and> (dlen = 0 \<and> n = 1 \<and> oobn = int olen \<longrightarrow>
          fst (read_response_message c dlen olen) = Inr (respData, oobData))
    \<and> (n = int dlen \<and> oobn = int olen \<longrightarrow>
          fst (read_response_message c dlen olen) = Inr (respData, oobData))"
  using assms bad_size_messages_differ
  by (auto simp: read_response_message_def ReadMsgUnix_def)

lemma serveConn_Next:
  "serveRequest lib src s c = Next (s', c') \<Longrightarrow> serveConn lib src s c = serveConn lib src s' c'"
  by (subst serveConn.simps) simp

lemma serveConn_Return:
  "serveRequest lib src s c = Return r (s', c')
    \<Longrightarrow> serveConn lib src s c = (r, s', c'\<lparr>closed := True\<rparr>)"
  by (subst serveConn.simps) simp

lemma example_request_sel:
  "Magic (example_request cmd key) = fdMagic" "Command (example_request cmd key) = cmd"
  "DataSize (example_request cmd key) = 0" "OobSize (example_request cmd key) = 0"
  "Key (example_request cmd key) = fdKey key"
  by (simp_all add: example_request_def)

lemma binary_Read_example:
  "binary_Read (example_conn (encode_fdHeader (example_request cmd key)))
     = (Inr (example_request cmd key), example_conn [])"
  using binary_Read_encode [OF wf_example_request,
      of "example_conn (encode_fdHeader (example_request cmd key))" cmd key "[]"]
  by (simp add: example_conn_def)

lemma example_conn_sel:
  "unread (example_conn bs) = bs" "written (example_conn bs) = []"
  "wfail (example_conn bs) n = None" "inmsgs (example_conn bs) = []"
  "closed (example_conn bs) = False"
  by (simp_all add: example_conn_def)

lemma binary_Read_bad_magic:
  "binary_Read (example_conn (encode_fdHeader bad_magic_request))
     = (Inr bad_magic_request, example_conn [])"
proof -
  have "wf_fdHeader bad_magic_request"
    by (simp add: bad_magic_request_def example_request_def wf_fdHeader_def length_fdKey)
  from binary_Read_encode [OF this, of "example_conn (encode_fdHeader bad_magic_request)" "[]"]
  show ?thesis by (simp add: example_conn_def)
qed

text \<open>
  C1, as the claim states it, fails: the server does not look at the registry before it
  calls the source. With the key \<open>p1\<close> in the registry, an ADD for \<open>p1\<close> calls \<open>GetFD\<close> of
  the source (the counter of the source goes from 0 to 1) and only then finds the key.
\<close>

theorem serveAdd_invokes_source_counterexample:
  "fds example_server (GetKey (example_request fdAdd (gostr ''p1''))) = Some 3
   \<and> source example_server = 0
   \<and> serveAdd counting_source example_server (example_conn []) (example_request fdAdd (gostr ''p1''))
       = (Inl (Err (gostr ''fd key already exists: %!q(<nil>)'')),
          example_server\<lparr>source := 1\<rparr>, example_conn [])"
  by (simp add: serveAdd_def read_payload_def addFD_def GetKey_example_p1 example_request_sel
      example_server_def counting_source_def)

text \<open>
  C1, amended. For every key already present in the registry, an ADD for that key fails
  and leaves the registry as it was. When the payload can be read, the server first
  delegates to the source's \<open>GetFD\<close>, so \<open>GetFD\<close> is invoked for a duplicate key too, and
  checks the registry afterwards, when it inserts: if \<open>GetFD\<close> succeeds, the ADD fails with
  the duplicate-key error ("fd key already exists"); if \<open>GetFD\<close> fails, with the error of
  the source ("error getting fd").
\<close>

theorem serveAdd_duplicate_key:
  assumes "fds s (GetKey hdr) \<noteq> None"
  shows "\<exists>e s' c'. serveAdd src s c hdr = (Inl e, s', c') \<and> fds s' = fds s
     \<and> (\<forall>data c1. read_payload c hdr = (Inr data, c1) \<longrightarrow>
          c' = c1 \<and> source s' = snd (GetFD src (GetKey hdr) data (source s))
          \<and> (case fst (GetFD src (GetKey hdr) data (source s)) of
               Inl e' \<Rightarrow> e = Err (gostr ''error getting fd: '' @ Error e')
             | Inr r \<Rightarrow> e = Err (gostr ''fd key already exists: %!q(<nil>)'')))"
  using assms by (rule serveAdd_present)

theorem serveAdd_duplicate_key_witness:
  "fds example_server (GetKey (example_request fdAdd (gostr ''p1''))) \<noteq> None
   \<and> (\<exists>e s' c'. serveAdd counting_source example_server (example_conn [])
          (example_request fdAdd (gostr ''p1'')) = (Inl e, s', c')
        \<and> fds s' = fds example_server)"
proof -
  have p: "fds example_server (GetKey (example_request fdAdd (gostr ''p1''))) \<noteq> None"
    by (simp add: GetKey_example_p1 example_server_def)
  from serveAdd_duplicate_key [OF p, of counting_source "example_conn []"] p
  show ?thesis by blast
qed

text \<open>
  C2, as the claim states it, fails: a RELEASE for a key that is not in the registry is
  answered with a RELEASE response (command 0x81), not with an ERROR response (0xff).
\<close>

theorem release_unknown_key_counterexample:
  "fds (example_server\<lparr>fds := Map.empty\<rparr>) (GetKey (example_request fdRelease (gostr ''p1''))) = None
   \<and> serveRequest example_lib counting_source (example_server\<lparr>fds := Map.empty\<rparr>)
        (example_conn (encode_fdHeader (example_request fdRelease (gostr ''p1''))))
      = Next (example_server\<lparr>fds := Map.empty\<rparr>,
              (example_conn [])\<lparr>written :=
                 [Plain (encode_fdHeader \<lparr>Magic = fdMagic, Command = 0x81, DataSize = 0,
                           OobSize = 0, Key = fdKey (gostr ''p1'')\<rparr>)]\<rparr>)
   \<and> fdError = 0xff"
proof -
  have "serveRequest example_lib counting_source (example_server\<lparr>fds := Map.empty\<rparr>)
        (example_conn (encode_fdHeader (example_request fdRelease (gostr ''p1''))))
      = Next (removeFD (example_server\<lparr>fds := Map.empty\<rparr>)
                (GetKey (example_request fdRelease (gostr ''p1''))),
              (example_conn [])\<lparr>written := written (example_conn []) @
                 [Plain (encode_fdHeader \<lparr>Magic = fdMagic, Command = fdReleaseResponse, DataSize = 0,
                           OobSize = 0, Key = Key (example_request fdRelease (gostr ''p1''))\<rparr>)]\<rparr>)"
    by (rule serveRequest_release [OF binary_Read_example])
      (simp_all add: example_request_def example_conn_def)
  then show ?thesis
    by (simp add: removeFD_def example_request_def example_conn_def fdReleaseResponse_def
        fdRelease_def fdResponse_def fdError_def example_server_def)
qed

text \<open>
  C2, amended. For every RELEASE request whose key is absent from the registry, the
  server leaves the registry as it is and replies with a RELEASE response (0x81, not the
  ERROR response 0xff) that carries the key of the request and no payload; when the
  response can be written, the connection stays open and the loop goes on with the next
  request.
\<close>

theorem serveRequest_release_unknown_key:
  assumes "binary_Read c = (Inr hdr, c1)" and "Magic hdr = fdMagic" and "Command hdr = fdRelease"
    and "fds s (GetKey hdr) = None"
    and "wfail c1 (length (written c1)) = None"
  shows "serveRequest lib src s c =
     Next (s, c1\<lparr>written := written c1 @
                 [Plain (encode_fdHeader \<lparr>Magic = fdMagic, Command = fdReleaseResponse,
                           DataSize = 0, OobSize = 0, Key = Key hdr\<rparr>)]\<rparr>)
    \<and> fdReleaseResponse = 0x81 \<and> fdError = 0xff
    \<and> serveConn lib src s c =
        serveConn lib src s (c1\<lparr>written := written c1 @
                 [Plain (encode_fdHeader \<lparr>Magic = fdMagic, Command = fdReleaseResponse,
                           DataSize = 0, OobSize = 0, Key = Key hdr\<rparr>)]\<rparr>)"
proof -
  have step: "serveRequest lib src s c =
     Next (s, c1\<lparr>written := written c1 @
                 [Plain (encode_fdHeader \<lparr>Magic = fdMagic, Command = fdReleaseResponse,
                           DataSize = 0, OobSize = 0, Key = Key hdr\<rparr>)]\<rparr>)"
    using serveRequest_release [OF assms(1-3) assms(5), of lib src s] removeFD_absent [OF assms(4)]
    by simp
  from serveConn_Next [OF step] step show ?thesis
    by (simp add: fdReleaseResponse_def fdRelease_def fdResponse_def fdError_def)
qed

theorem serveRequest_release_unknown_key_witness:
  "binary_Read (example_conn (encode_fdHeader (example_request fdRelease (gostr ''ghost''))))
     = (Inr (example_request fdRelease (gostr ''ghost'')), example_conn [])
   \<and> Magic (example_request fdRelease (gostr ''ghost'')) = fdMagic
   \<and> Command (example_request fdRelease (gostr ''ghost'')) = fdRelease
   \<and> fds (example_server\<lparr>fds := Map.empty\<rparr>)
        (GetKey (example_request fdRelease (gostr ''ghost''))) = None
   \<and> wfail (example_conn []) (length (written (example_conn []))) = None
   \<and> serveRequest example_lib counting_source (example_server\<lparr>fds := Map.empty\<rparr>)
        (example_conn (encode_fdHeader (example_request fdRelease (gostr ''ghost''))))
      = Next (example_server\<lparr>fds := Map.empty\<rparr>,
              (example_conn [])\<lparr>written := written (example_conn []) @
                 [Plain (encode_fdHeader \<lparr>Magic = fdMagic, Command = fdReleaseResponse,
                     DataSize = 0, OobSize = 0,
                     Key = Key (example_request fdRelease (gostr ''ghost''))\<rparr>)]\<rparr>)"
proof -
  have a: "Magic (example_request fdRelease (gostr ''ghost'')) = fdMagic"
    and b: "Command (example_request fdRelease (gostr ''ghost'')) = fdRelease"
    and c: "fds (example_server\<lparr>fds := Map.empty\<rparr>)
        (GetKey (example_request fdRelease (gostr ''ghost''))) = None"
    and d: "wfail (example_conn []) (length (written (example_conn []))) = None"
    by (simp_all add: example_request_sel example_conn_def)
  from serveRequest_release_unknown_key [OF binary_Read_example a b c d,
      of example_lib counting_source] binary_Read_example a b c d
  show ?thesis by simp
qed

text \<open>
  C4, as the claim states it, fails for the unknown command: a frame with the right magic
  and the command 3 is answered with an ERROR response whose payload is "bad command",
  and the loop goes on.
\<close>

theorem unknown_command_counterexample:
  "Command (example_request 3 (gostr ''p1'')) \<notin> {fdAdd, fdRelease, fdGet}
   \<and> serveRequest example_lib counting_source example_server
        (example_conn (encode_fdHeader (example_request 3 (gostr ''p1''))))
      = Next (example_server,
              (example_conn [])\<lparr>written :=
                 [Plain (encode_fdHeader \<lparr>Magic = fdMagic, Command = 0xff, DataSize = 11,
                           OobSize = 0, Key = replicate 64 0\<rparr>),
                  Msg (gostr ''bad command'') []]\<rparr>)"
proof -
  have "serveRequest example_lib counting_source example_server
        (example_conn (encode_fdHeader (example_request 3 (gostr ''p1''))))
      = Next (example_server,
              (example_conn [])\<lparr>written := written (example_conn []) @
                 [Plain (encode_fdHeader \<lparr>Magic = fdMagic, Command = fdError, DataSize = 11,
                           OobSize = 0, Key = replicate 64 0\<rparr>),
                  Msg (gostr ''bad command'') []]\<rparr>)"
    by (rule serveRequest_bad_command [OF binary_Read_example])
      (simp_all add: example_request_sel example_conn_def fdAdd_def fdRelease_def fdGet_def)
  then show ?thesis
    by (simp add: example_request_sel example_conn_def fdAdd_def fdRelease_def fdGet_def
        fdError_def)
qed

text \<open>
  C4, amended. For every received frame whose magic differs from 0x42424242 the server
  writes nothing and closes the connection, returning the error "bad magic". For every
  received frame with the right magic whose command is none of ADD, RELEASE and GET, the
  server sends an ERROR response (0xff) with the payload "bad command" and, when both
  writes succeed, keeps the connection open for the next request.
\<close>

theorem serveRequest_protocol_errors:
  assumes "binary_Read c = (Inr hdr, c1)"
  shows "(Magic hdr \<noteq> fdMagic \<longrightarrow>
            serveRequest lib src s c = Return (Some (Err (gostr ''bad magic''))) (s, c1)
          \<and> serveConn lib src s c = (Some (Err (gostr ''bad magic'')), s, c1\<lparr>closed := True\<rparr>)
          \<and> written c1 = written c)
    \<and> (Magic hdr = fdMagic \<and> Command hdr \<notin> {fdAdd, fdRelease, fdGet}
         \<and> wfail c1 (length (written c1)) = None \<and> wfail c1 (Suc (length (written c1))) = None \<longrightarrow>
            serveRequest lib src s c =
              Next (s, c1\<lparr>written := written c1 @
                     [Plain (encode_fdHeader \<lparr>Magic = fdMagic, Command = fdError,
                               DataSize = 11, OobSize = 0, Key = replicate 64 0\<rparr>),
                      Msg (gostr ''bad command'') []]\<rparr>)
          \<and> serveConn lib src s c =
              serveConn lib src s (c1\<lparr>written := written c1 @
                     [Plain (encode_fdHeader \<lparr>Magic = fdMagic, Command = fdError,
                               DataSize = 11, OobSize = 0, Key = replicate 64 0\<rparr>),
                      Msg (gostr ''bad command'') []]\<rparr>))"
proof (intro conjI impI)
  assume m: "Magic hdr \<noteq> fdMagic"
  show "serveRequest lib src s c = Return (Some (Err (gostr ''bad magic''))) (s, c1)"
    by (rule serveRequest_bad_magic [OF assms m])
  then show "serveConn lib src s c = (Some (Err (gostr ''bad magic'')), s, c1\<lparr>closed := True\<rparr>)"
    by (rule serveConn_Return)
  show "written c1 = written c"
    using assms by (auto simp: binary_Read_def ReadFull_def split: if_splits)
next
  assume h: "Magic hdr = fdMagic \<and> Command hdr \<notin> {fdAdd, fdRelease, fdGet}
         \<and> wfail c1 (length (written c1)) = None \<and> wfail c1 (Suc (length (written c1))) = None"
  then show step: "serveRequest lib src s c =
              Next (s, c1\<lparr>written := written c1 @
                     [Plain (encode_fdHeader \<lparr>Magic = fdMagic, Command = fdError,
                               DataSize = 11, OobSize = 0, Key = replicate 64 0\<rparr>),
                      Msg (gostr ''bad command'') []]\<rparr>)"
    using serveRequest_bad_command [OF assms, of lib src s] by simp
  show "serveConn lib src s c =
              serveConn lib src s (c1\<lparr>written := written c1 @
                     [Plain (encode_fdHeader \<lparr>Magic = fdMagic, Command = fdError,
                               DataSize = 11, OobSize = 0, Key = replicate 64 0\<rparr>),
                      Msg (gostr ''bad command'') []]\<rparr>)"
    by (rule serveConn_Next [OF step])
qed

theorem serveRequest_protocol_errors_witness:
  "binary_Read (example_conn (encode_fdHeader bad_magic_request))
     = (Inr bad_magic_request, example_conn [])
   \<and> Magic bad_magic_request \<noteq> fdMagic
   \<and> serveConn example_lib counting_source example_server
        (example_conn (encode_fdHeader bad_magic_request))
      = (Some (Err (gostr ''bad magic'')), example_server, (example_conn [])\<lparr>closed := True\<rparr>)
   \<and> binary_Read (example_conn (encode_fdHeader (example_request 3 (gostr ''p1''))))
     = (Inr (example_request 3 (gostr ''p1'')), example_conn [])
   \<and> Magic (example_request 3 (gostr ''p1'')) = fdMagic
   \<and> Command (example_request 3 (gostr ''p1'')) \<notin> {fdAdd, fdRelease, fdGet}
   \<and> wfail (example_conn []) (length (written (example_conn []))) = None
   \<and> wfail (example_conn []) (Suc (length (written (example_conn [])))) = None
   \<and> serveRequest example_lib counting_source example_server
        (example_conn (encode_fdHeader (example_request 3 (gostr ''p1''))))
      = Next (example_server,
              (example_conn [])\<lparr>written := written (example_conn []) @
                 [Plain (encode_fdHeader \<lparr>Magic = fdMagic, Command = fdError, DataSize = 11,
                           OobSize = 0, Key = replicate 64 0\<rparr>),
                  Msg (gostr ''bad command'') []]\<rparr>)"
proof -
  have m: "Magic bad_magic_request \<noteq> fdMagic"
    by (simp add: bad_magic_request_def fdMagic_def)
  have h: "Magic (example_request 3 (gostr ''p1'')) = fdMagic
      \<and> Command (example_request 3 (gostr ''p1'')) \<notin> {fdAdd, fdRelease, fdGet}
      \<and> wfail (example_conn []) (length (written (example_conn []))) = None
      \<and> wfail (example_conn []) (Suc (length (written (example_conn [])))) = None"
    by (simp add: example_request_sel example_conn_def fdAdd_def fdRelease_def fdGet_def)
  from serveRequest_protocol_errors [OF binary_Read_bad_magic,
      of example_lib counting_source example_server]
    serveRequest_protocol_errors [OF binary_Read_example,
      of 3 "gostr ''p1''" example_lib counting_source example_server]
    m h binary_Read_bad_magic binary_Read_example [of 3 "gostr ''p1''"]
  show ?thesis by simp
qed

text \<open>
  C9. When the response to a GET has no payload (\<open>DataSize\<close> is 0) but carries out-of-band
  data, the server still writes a message, which transmits a single byte along with the
  out-of-band data. The client's check of the sizes reports "bad data size" exactly when
  the number of bytes read differs from the declared size and it is not the case that the
  declared size is 0 and one byte was read; it accepts that case.
\<close>

theorem empty_payload_single_byte:
  "(binary_Read c = (Inr hdr, c1) \<and> Magic hdr = fdMagic \<and> Command hdr = fdGet
      \<and> fds s (GetKey hdr) = Some fd
      \<and> GetInfo src (GetKey hdr) (source s) = (Inr [], src')
      \<and> UnixRights lib fd \<noteq> []
      \<and> wfail c1 (length (written c1)) = None \<and> wfail c1 (Suc (length (written c1))) = None \<longrightarrow>
        serveRequest lib src s c =
          Next (s\<lparr>source := src'\<rparr>,
                c1\<lparr>written := written c1 @
                  [Plain (encode_fdHeader \<lparr>Magic = fdMagic, Command = fdGetResponse,
                            DataSize = 0, OobSize = of_nat (length (UnixRights lib fd)),
                            Key = Key hdr\<rparr>),
                   Msg [0] (UnixRights lib fd)]\<rparr>))
   \<and> (inmsgs cc = m # ms \<and> m dlen olen = Inr (n, oobn, respData, oobData)
        \<and> (0 < dlen \<or> 0 < olen) \<longrightarrow>
        (fst (read_response_message cc dlen olen)
            = Inl (Err (gostr ''bad data size: '' @ itoa n @ gostr '' instead of ''
                     @ itoa (int dlen)))
          \<longleftrightarrow> n \<noteq> int dlen \<and> \<not> (dlen = 0 \<and> n = 1))
        \<and> (dlen = 0 \<and> n = 1 \<and> oobn = int olen \<longrightarrow>
              fst (read_response_message cc dlen olen) = Inr (respData, oobData)))"
proof (intro conjI impI)
  assume "binary_Read c = (Inr hdr, c1) \<and> Magic hdr = fdMagic \<and> Command hdr = fdGet
      \<and> fds s (GetKey hdr) = Some fd
      \<and> GetInfo src (GetKey hdr) (source s) = (Inr [], src')
      \<and> UnixRights lib fd \<noteq> []
      \<and> wfail c1 (length (written c1)) = None \<and> wfail c1 (Suc (length (written c1))) = None"
  then show "serveRequest lib src s c =
          Next (s\<lparr>source := src'\<rparr>,
                c1\<lparr>written := written c1 @
                  [Plain (encode_fdHeader \<lparr>Magic = fdMagic, Command = fdGetResponse,
                            DataSize = 0, OobSize = of_nat (length (UnixRights lib fd)),
                            Key = Key hdr\<rparr>),
                   Msg [0] (UnixRights lib fd)]\<rparr>)"
    using serveRequest_get_empty_info [of c hdr c1 s fd src src' lib] by simp
next
  assume a: "inmsgs cc = m # ms \<and> m dlen olen = Inr (n, oobn, respData, oobData)
        \<and> (0 < dlen \<or> 0 < olen)"
  then show "(fst (read_response_message cc dlen olen)
            = Inl (Err (gostr ''bad data size: '' @ itoa n @ gostr '' instead of ''
                     @ itoa (int dlen))))
          = (n \<noteq> int dlen \<and> \<not> (dlen = 0 \<and> n = 1))"
    using read_response_message_sizes [of cc m ms dlen olen n oobn respData oobData] by blast
  assume "dlen = 0 \<and> n = 1 \<and> oobn = int olen"
  with a show "fst (read_response_message cc dlen olen) = Inr (respData, oobData)"
    using read_response_message_sizes [of cc m ms dlen olen n oobn respData oobData] by blast
qed

theorem empty_payload_single_byte_witness:
  "binary_Read (example_conn (encode_fdHeader (example_request fdGet (gostr ''p1''))))
     = (Inr (example_request fdGet (gostr ''p1'')), example_conn [])
   \<and> Magic (example_request fdGet (gostr ''p1'')) = fdMagic
   \<and> Command (example_request fdGet (gostr ''p1'')) = fdGet
   \<and> fds example_server (GetKey (example_request fdGet (gostr ''p1''))) = Some 3
   \<and> GetInfo counting_source (GetKey (example_request fdGet (gostr ''p1''))) (source example_server)
       = (Inr [], 0)
   \<and> UnixRights example_lib 3 \<noteq> []
   \<and> wfail (example_conn []) (length (written (example_conn []))) = None
   \<and> wfail (example_conn []) (Suc (length (written (example_conn [])))) = None
   \<and> serveRequest example_lib counting_source example_server
        (example_conn (encode_fdHeader (example_request fdGet (gostr ''p1''))))
      = Next (example_server\<lparr>source := 0\<rparr>,
              (example_conn [])\<lparr>written := written (example_conn []) @
                [Plain (encode_fdHeader \<lparr>Magic = fdMagic, Command = fdGetResponse,
                          DataSize = 0, OobSize = of_nat (length (UnixRights example_lib 3)),
                          Key = Key (example_request fdGet (gostr ''p1''))\<rparr>),
                 Msg [0] (UnixRights example_lib 3)]\<rparr>)
   \<and> inmsgs ((example_conn [])\<lparr>inmsgs := [example_reply]\<rparr>) = example_reply # []
   \<and> example_reply 0 4 = Inr (1, 4, [], [1, 2, 3, 4])
   \<and> ((0::nat) < 0 \<or> (0::nat) < 4)
   \<and> fst (read_response_message ((example_conn [])\<lparr>inmsgs := [example_reply]\<rparr>) 0 4)
       = Inr ([], [1, 2, 3, 4])"
proof -
  have a: "binary_Read (example_conn (encode_fdHeader (example_request fdGet (gostr ''p1''))))
     = (Inr (example_request fdGet (gostr ''p1'')), example_conn [])
   \<and> Magic (example_request fdGet (gostr ''p1'')) = fdMagic
   \<and> Command (example_request fdGet (gostr ''p1'')) = fdGet
   \<and> fds example_server (GetKey (example_request fdGet (gostr ''p1''))) = Some 3
   \<and> GetInfo counting_source (GetKey (example_request fdGet (gostr ''p1''))) (source example_server)
       = (Inr [], 0)
   \<and> UnixRights example_lib 3 \<noteq> []
   \<and> wfail (example_conn []) (length (written (example_conn []))) = None
   \<and> wfail (example_conn []) (Suc (length (written (example_conn [])))) = None"
    by (simp add: binary_Read_example example_request_sel GetKey_example_p1 example_server_def
        counting_source_def example_lib_def example_conn_sel)
  have b: "inmsgs ((example_conn [])\<lparr>inmsgs := [example_reply]\<rparr>) = example_reply # []
   \<and> example_reply 0 4 = Inr (1, 4, [], [1, 2, 3, 4])
   \<and> ((0::nat) < 0 \<or> (0::nat) < 4)"
    by (simp add: example_reply_def)
  from empty_payload_single_byte [of
      "example_conn (encode_fdHeader (example_request fdGet (gostr ''p1'')))"
      "example_request fdGet (gostr ''p1'')" "example_conn []" example_server 3 counting_source 0
      example_lib "(example_conn [])\<lparr>inmsgs := [example_reply]\<rparr>" example_reply "[]" 0 4 1 4
      "[]" "[1, 2, 3, 4]"] a b
  show ?thesis by simp
qed

section \<open>Verification: the tap FD source\<close>

lemma perform_calls: "perform w cl s = (r, s') \<Longrightarrow> calls s' = calls s @ [cl] \<and> fdMap s' = fdMap s"
  by (auto simp: perform_def)












text \<open>
  C7. When add succeeds for a pod descriptor \<open>d\<close>, the response bytes are the JSON
  encoding of a network result, and decode to it with every decoder that inverts the
  encoder. If the DNS field of \<open>d\<close> is not null, the name servers, the search list and
  the options of that result are those of \<open>d\<close>; if it is null, the DNS block is the one
  the provisioner returned.
\<close>

theorem GetFD_DNS_override:
  assumes "TapFDSource_GetFD w key data s = (Inr (fd, bytes), s')"
    and "Unmarshal_pnd w data = Inr d"
    and "\<And>r bs. Marshal_result w r = Inr bs \<Longrightarrow> decode bs = Some r"
  shows "\<exists>r. Marshal_result w r = Inr bytes \<and> decode bytes = Some r
    \<and> (case pnd_DNS d of
          Some dns \<Rightarrow> Nameservers (DNS r) = Nameservers dns \<and> Search (DNS r) = Search dns
                      \<and> Options (DNS r) = Options dns
        | None \<Rightarrow> DNS r = DNS (netConfig_of w (calls s @
                      [Call_CreateNetNS (PodId d),
                       Call_AddSandboxToNetwork (PodId d) (PodName d) (PodNs d)])))"
proof -
  let ?nc0 = "netConfig_of w (calls s @
                      [Call_CreateNetNS (PodId d),
                       Call_AddSandboxToNetwork (PodId d) (PodName d) (PodNs d)])"
  let ?nc = "case pnd_DNS d of None \<Rightarrow> ?nc0
             | Some dns \<Rightarrow> ?nc0\<lparr>DNS := (DNS ?nc0)\<lparr>Nameservers := Nameservers dns,
                    Search := Search dns, Options := Options dns\<rparr>\<rparr>"
  have m: "Marshal_result w ?nc = Inr bytes"
    using assms(1,2)
    by (auto simp: TapFDSource_GetFD_def perform_def Let_def
        split: option.splits prod.splits sum.splits)
  show ?thesis
  proof (cases "pnd_DNS d")
    case None
    with m have m0: "Marshal_result w ?nc0 = Inr bytes" by simp
    from assms(3) [OF m0] m0 None show ?thesis
      by (intro exI [of _ ?nc0]) simp
  next
    case (Some dns)
    let ?nc1 = "?nc0\<lparr>DNS := (DNS ?nc0)\<lparr>Nameservers := Nameservers dns,
                    Search := Search dns, Options := Options dns\<rparr>\<rparr>"
    from m Some have m1: "Marshal_result w ?nc1 = Inr bytes" by simp
    from assms(3) [OF m1] m1 Some show ?thesis
      by (intro exI [of _ ?nc1]) simp
  qed
qed

theorem GetFD_DNS_override_witness:
  "fst (TapFDSource_GetFD (example_world no_failure) (gostr ''p1'') example_payload example_source)
      = Inr (5, gostr ''{}'')
   \<and> Unmarshal_pnd (example_world no_failure) example_payload = Inr example_pnd
   \<and> Marshal_result (example_world no_failure) (example_result\<lparr>DNS := example_dns\<rparr>)
       = Inr (gostr ''{}'')
   \<and> example_decode (gostr ''{}'') = Some (example_result\<lparr>DNS := example_dns\<rparr>)
   \<and> pnd_DNS example_pnd = Some example_dns
   \<and> (\<exists>r. example_decode (gostr ''{}'') = Some r \<and> Nameservers (DNS r) = [gostr ''1.1.1.1''])"
proof -
  have f: "fst (TapFDSource_GetFD (example_world no_failure) (gostr ''p1'') example_payload example_source)
      = Inr (5, gostr ''{}'')"
    by (simp add: TapFDSource_GetFD_def GetFD_in_netns_def perform_def Let_def example_world_def
        no_failure_def example_pnd_def example_source_def example_csn_def example_dns_def
        example_result_def)
  then have r: "TapFDSource_GetFD (example_world no_failure) (gostr ''p1'') example_payload example_source
      = (Inr (5, gostr ''{}''),
         snd (TapFDSource_GetFD (example_world no_failure) (gostr ''p1'') example_payload example_source))"
    by (simp add: prod_eq_iff)
  have u: "Unmarshal_pnd (example_world no_failure) example_payload = Inr example_pnd"
    by (simp add: example_world_def)
  have d: "\<And>r bs. Marshal_result (example_world no_failure) r = Inr bs \<Longrightarrow> example_decode bs = Some r"
    by (simp add: example_world_def example_decode_def split: if_splits)
  from GetFD_DNS_override [where decode = example_decode, OF r u d]
  have "\<exists>r. example_decode (gostr ''{}'') = Some r \<and> Nameservers (DNS r) = [gostr ''1.1.1.1'']"
    by (auto simp: example_pnd_def example_dns_def)
  moreover have "Marshal_result (example_world no_failure) (example_result\<lparr>DNS := example_dns\<rparr>)
       = Inr (gostr ''{}'')"
    and "example_decode (gostr ''{}'') = Some (example_result\<lparr>DNS := example_dns\<rparr>)"
    by (simp_all add: example_world_def example_decode_def)
  ultimately show ?thesis
    using f u by (simp add: example_pnd_def)
qed

section \<open>Verification: the fake CNI client\<close>

text \<open>
  C10. The capture runs only for a result with exactly one IP, and its guard
  \<open>ifaceIndex > len(c.info.Interfaces)\<close> is meant to report "bad interface index" for an
  index outside the list. With one interface in the list, the index 2 is reported so, but
  the indices 1 (equal to the length) and -1 pass the guard, and indexing the list
  panics with an index out of range. The index 0 is captured.
\<close>

theorem capture_index_equal_length_panics:
  "length (Interfaces (example_result)) = 1
   \<and> captureNetworkConfigAfterTeardown example_netlib (example_client 1) (gostr ''p1'')
      = Panicked Panic_index_out_of_range
   \<and> captureNetworkConfigAfterTeardown example_netlib (example_client (- 1)) (gostr ''p1'')
      = Panicked Panic_index_out_of_range
   \<and> captureNetworkConfigAfterTeardown example_netlib (example_client 2) (gostr ''p1'')
      = Panicked (Panic_error (Err (gostr ''bad interface index 2'')))
   \<and> captureNetworkConfigAfterTeardown example_netlib (example_client 0) (gostr ''p1'')
      = Returned ((example_client 0)\<lparr>infoAfterTeardown := Some example_result\<rparr>)"
  by (simp add: captureNetworkConfigAfterTeardown_def capture_in_netns_def example_client_def
      example_netlib_def example_result_def itoa_def digits.simps gostr_def)

end
